theory Spec2Isabelle
  imports Complex_Main "HOL-Library.Sublist" "HOL-Library.Multiset"
begin

section \<open>Python values\<close>

text \<open>
  The programs under study (\<^verbatim>\<open>src/app.py\<close> and \<^verbatim>\<open>src/llm_pipeline/utils.py\<close>) are
  dynamically typed: listing metadata and user inputs are dictionaries whose values may be
  \<^verbatim>\<open>None\<close>, booleans, integers, floats, strings or lists of strings. The model keeps that
  universe as one datatype, and every operation that raises in Python returns the exception
  as a value (\<open>Inl\<close>).

  Floats are idealised: a finite float is an exact rational (no rounding, no overflow, no
  signed zero); the three non-finite floats are kept, since Python code can receive them
  (\<^verbatim>\<open>float("inf")\<close>, \<^verbatim>\<open>float("nan")\<close>) and they behave differently under \<^verbatim>\<open>int\<close>,
  comparison and arithmetic.

  A string is the list of the bytes of its UTF-8 encoding. Concatenation, equality and
  the substring test are the same on the bytes as on the code points. The builtins that
  look at the characters themselves (\<^verbatim>\<open>lower\<close>, \<^verbatim>\<open>strip\<close>, \<^verbatim>\<open>int\<close>, \<^verbatim>\<open>float\<close>, the class
  \<^verbatim>\<open>\d\<close> of \<^verbatim>\<open>re\<close>, iteration) are defined here on ASCII text; on text with a byte
  above 127 they follow Unicode tables, and their results are left to the interpreter,
  a parameter of every function that calls them.
\<close>

datatype py_error =
    ValueError
  | TypeError
  | OverflowError
  | ZeroDivisionError
  | AttributeError
  | ServiceError string

datatype pyfloat = Fin rat | PosInf | NegInf | NaN

datatype pyval =
    PNone
  | PBool bool
  | PInt int
  | PFloat pyfloat
  | PStr string
  | PList "string list"

type_synonym pydict = "string \<rightharpoonup> pyval"

text \<open>\<^verbatim>\<open>d.get(k)\<close>: the value, or \<^verbatim>\<open>None\<close> when the key is missing.\<close>

definition dict_get :: "pydict \<Rightarrow> string \<Rightarrow> pyval" where
  "dict_get d k = (case d k of None \<Rightarrow> PNone | Some v \<Rightarrow> v)"

text \<open>Truth value testing, as \<^verbatim>\<open>if v:\<close> and \<^verbatim>\<open>a and b\<close> do it.\<close>

fun truthy :: "pyval \<Rightarrow> bool" where
  "truthy PNone = False"
| "truthy (PBool b) = b"
| "truthy (PInt i) = (i \<noteq> 0)"
| "truthy (PFloat f) = (f \<noteq> Fin 0)"
| "truthy (PStr s) = (s \<noteq> [])"
| "truthy (PList xs) = (xs \<noteq> [])"

subsection \<open>Float arithmetic and comparison\<close>

fun f_neg :: "pyfloat \<Rightarrow> pyfloat" where
  "f_neg (Fin r) = Fin (- r)"
| "f_neg PosInf = NegInf"
| "f_neg NegInf = PosInf"
| "f_neg NaN = NaN"

fun f_add :: "pyfloat \<Rightarrow> pyfloat \<Rightarrow> pyfloat" where
  "f_add NaN y = NaN"
| "f_add x NaN = NaN"
| "f_add (Fin a) (Fin b) = Fin (a + b)"
| "f_add PosInf NegInf = NaN"
| "f_add NegInf PosInf = NaN"
| "f_add PosInf y = PosInf"
| "f_add NegInf y = NegInf"
| "f_add (Fin a) y = y"

definition f_sub :: "pyfloat \<Rightarrow> pyfloat \<Rightarrow> pyfloat" where
  "f_sub x y = f_add x (f_neg y)"

fun f_abs :: "pyfloat \<Rightarrow> pyfloat" where
  "f_abs (Fin r) = Fin \<bar>r\<bar>"
| "f_abs PosInf = PosInf"
| "f_abs NegInf = PosInf"
| "f_abs NaN = NaN"

text \<open>
  True division \<^verbatim>\<open>x / y\<close> on floats: a zero divisor raises \<^verbatim>\<open>ZeroDivisionError\<close>
  whatever the dividend; otherwise the IEEE result.
\<close>

fun f_div :: "pyfloat \<Rightarrow> pyfloat \<Rightarrow> py_error + pyfloat" where
  "f_div x (Fin b) =
     (if b = 0 then Inl ZeroDivisionError
      else case x of
          Fin a \<Rightarrow> Inr (Fin (a / b))
        | PosInf \<Rightarrow> Inr (if 0 < b then PosInf else NegInf)
        | NegInf \<Rightarrow> Inr (if 0 < b then NegInf else PosInf)
        | NaN \<Rightarrow> Inr NaN)"
| "f_div NaN y = Inr NaN"
| "f_div x NaN = Inr NaN"
| "f_div (Fin a) y = Inr (Fin 0)"
| "f_div x y = Inr NaN"

text \<open>\<^verbatim>\<open>x < y\<close>: false as soon as one side is NaN.\<close>

fun f_lt :: "pyfloat \<Rightarrow> pyfloat \<Rightarrow> bool" where
  "f_lt NaN y = False"
| "f_lt x NaN = False"
| "f_lt (Fin a) (Fin b) = (a < b)"
| "f_lt NegInf NegInf = False"
| "f_lt NegInf y = True"
| "f_lt x NegInf = False"
| "f_lt PosInf y = False"
| "f_lt x PosInf = True"

text \<open>
  The builtin \<^verbatim>\<open>max(a, b)\<close> keeps its first argument unless the second is strictly
  greater, so \<^verbatim>\<open>max(0, nan)\<close> is \<^verbatim>\<open>0\<close>.
\<close>

definition py_max :: "pyfloat \<Rightarrow> pyfloat \<Rightarrow> pyfloat" where
  "py_max a b = (if f_lt a b then b else a)"

section \<open>Strings and conversions\<close>

subsection \<open>The interpreter on text outside ASCII\<close>

text \<open>
  What the interpreter computes where the model does not: the text of a float and of a
  list (\<^verbatim>\<open>str\<close>, \<^verbatim>\<open>repr\<close>), and on text with a byte above 127 the results of
  \<^verbatim>\<open>s.lower()\<close>, \<^verbatim>\<open>s.strip()\<close>, \<^verbatim>\<open>list(s)\<close>, \<^verbatim>\<open>re.sub(r"[^\d.]", "", s)\<close>,
  \<^verbatim>\<open>float(s)\<close> and \<^verbatim>\<open>int(s)\<close> (\<open>None\<close> when the conversion raises \<^verbatim>\<open>ValueError\<close>, the
  only exception these two raise on a string). Nothing is assumed about these functions:
  every result below holds whatever they return.
\<close>

record interp =
  repr_text :: "pyval \<Rightarrow> string"
  lower_text :: "string \<Rightarrow> string"
  strip_text :: "string \<Rightarrow> string"
  chars_text :: "string \<Rightarrow> string list"
  numeric_text :: "string \<Rightarrow> string"
  float_text :: "string \<Rightarrow> pyfloat option"
  int_text :: "string \<Rightarrow> int option"

text \<open>ASCII text: no byte has its highest bit set.\<close>

definition ascii_text :: "string \<Rightarrow> bool" where
  "ascii_text s = list_all (\<lambda>c. \<not> digit7 c) s"

subsection \<open>Characters and strings\<close>

definition digit_val :: "char \<Rightarrow> nat option" where
  "digit_val c = map_of (zip ''0123456789'' [0, 1, 2, 3, 4, 5, 6, 7, 8, 9]) c"

declare digit_val_def [simp]

definition is_digit :: "char \<Rightarrow> bool" where
  "is_digit c = (digit_val c \<noteq> None)"

definition digit_char :: "nat \<Rightarrow> char" where
  "digit_char n = ''0123456789'' ! n"

text \<open>
  Whitespace. \<^verbatim>\<open>str.strip()\<close> removes the characters for which \<^verbatim>\<open>str.isspace()\<close>
  holds; the numeric parsers \<^verbatim>\<open>int\<close> and \<^verbatim>\<open>float\<close> skip the whitespace of C only.
\<close>

definition is_space :: "char \<Rightarrow> bool" where
  "is_space c = (c \<in> set [CHR '' '', CHR 0x09, CHR 0x0A, CHR 0x0B, CHR 0x0C, CHR 0x0D,
                           CHR 0x1C, CHR 0x1D, CHR 0x1E, CHR 0x1F])"

definition is_blank :: "char \<Rightarrow> bool" where
  "is_blank c = (c \<in> set [CHR '' '', CHR 0x09, CHR 0x0A, CHR 0x0B, CHR 0x0C, CHR 0x0D])"

definition strip_chars :: "(char \<Rightarrow> bool) \<Rightarrow> string \<Rightarrow> string" where
  "strip_chars ws s = rev (dropWhile ws (rev (dropWhile ws s)))"

text \<open>\<^verbatim>\<open>s.strip()\<close>\<close>

definition strip :: "interp \<Rightarrow> string \<Rightarrow> string" where
  "strip rp s = (if ascii_text s then strip_chars is_space s else strip_text rp s)"

definition char_lower :: "char \<Rightarrow> char" where
  "char_lower c =
     (case map_of (zip ''ABCDEFGHIJKLMNOPQRSTUVWXYZ'' ''abcdefghijklmnopqrstuvwxyz'') c of
        None \<Rightarrow> c
      | Some l \<Rightarrow> l)"

definition ascii_lower :: "string \<Rightarrow> string" where
  "ascii_lower s = map char_lower s"

text \<open>\<^verbatim>\<open>s.lower()\<close>\<close>

definition str_lower :: "interp \<Rightarrow> string \<Rightarrow> string" where
  "str_lower rp s = (if ascii_text s then ascii_lower s else lower_text rp s)"

text \<open>\<^verbatim>\<open>sep.join(parts)\<close>\<close>

fun str_join :: "string \<Rightarrow> string list \<Rightarrow> string" where
  "str_join sep [] = []"
| "str_join sep [x] = x"
| "str_join sep (x # y # ys) = x @ sep @ str_join sep (y # ys)"

text \<open>Iterating over a string yields its characters as one-character strings.\<close>

definition chars_of :: "interp \<Rightarrow> string \<Rightarrow> string list" where
  "chars_of rp s = (if ascii_text s then map (\<lambda>c. [c]) s else chars_text rp s)"

subsection \<open>Integers to decimal text\<close>

function nat_digits :: "nat \<Rightarrow> string" where
  "nat_digits n = (if n < 10 then [digit_char n] else nat_digits (n div 10) @ [digit_char (n mod 10)])"
  by pat_completeness auto
termination
  by (relation "measure id") auto

declare nat_digits.simps [simp del]

text \<open>\<^verbatim>\<open>str(i)\<close> for an integer.\<close>

definition int_str :: "int \<Rightarrow> string" where
  "int_str i = (if i < 0 then CHR ''-'' # nat_digits (nat (- i)) else nat_digits (nat i))"

text \<open>
  The format specification \<^verbatim>\<open>{i:,}\<close>: the decimal digits in groups of three from the
  right, separated by commas.
\<close>

function group3 :: "string \<Rightarrow> string" where
  "group3 ds = (if length ds \<le> 3 then ds
                else group3 (take (length ds - 3) ds) @ CHR '','' # drop (length ds - 3) ds)"
  by pat_completeness auto
termination
  by (relation "measure length") auto

declare group3.simps [simp del]

definition int_commas :: "int \<Rightarrow> string" where
  "int_commas i = (if i < 0 then CHR ''-'' # group3 (nat_digits (nat (- i)))
                   else group3 (nat_digits (nat i)))"

subsection \<open>Text to numbers\<close>

text \<open>
  A digit part of a numeric literal: digits, with single underscores allowed between
  two digits.
\<close>

fun digitpart_ok :: "string \<Rightarrow> bool" where
  "digitpart_ok [] = False"
| "digitpart_ok [c] = is_digit c"
| "digitpart_ok (c # d # cs) =
     (is_digit c \<and> (if d = CHR ''_'' then digitpart_ok cs else digitpart_ok (d # cs)))"

definition digits_nat :: "string \<Rightarrow> nat" where
  "digits_nat s = foldl (\<lambda>acc c. case digit_val c of None \<Rightarrow> acc | Some d \<Rightarrow> 10 * acc + d) 0 s"

text \<open>An optional sign in front: whether it is a minus, and the rest.\<close>

fun split_sign :: "string \<Rightarrow> bool \<times> string" where
  "split_sign [] = (False, [])"
| "split_sign (c # cs) =
     (if c = CHR ''-'' then (True, cs) else if c = CHR ''+'' then (False, cs) else (False, c # cs))"

text \<open>The text before the first occurrence of a character, and the text after it if any.\<close>

definition split_at :: "char \<Rightarrow> string \<Rightarrow> string \<times> string option" where
  "split_at c s =
     (takeWhile (\<lambda>x. x \<noteq> c) s,
      case dropWhile (\<lambda>x. x \<noteq> c) s of [] \<Rightarrow> None | _ # r \<Rightarrow> Some r)"

text \<open>
  \<^verbatim>\<open>int(s)\<close> for an ASCII string, base ten. The interpreter's limit on the number of
  digits of such a string is left out.
\<close>

definition int_of_str :: "string \<Rightarrow> py_error + int" where
  "int_of_str s0 =
     (case split_sign (strip_chars is_blank s0) of (neg, body) \<Rightarrow>
        if digitpart_ok body
        then Inr (if neg then - int (digits_nat body) else int (digits_nat body))
        else Inl ValueError)"

text \<open>The mantissa \<^verbatim>\<open>[digits][.[digits]]\<close> with at least one digit.\<close>

definition mantissa :: "string \<Rightarrow> rat option" where
  "mantissa m =
     (case split_at CHR ''.'' m of
        (ip, None) \<Rightarrow> if digitpart_ok ip then Some (of_nat (digits_nat ip)) else None
      | (ip, Some fp) \<Rightarrow>
          if (ip = [] \<or> digitpart_ok ip) \<and> (fp = [] \<or> digitpart_ok fp) \<and> \<not> (ip = [] \<and> fp = [])
          then Some (of_nat (digits_nat ip)
                     + of_nat (digits_nat fp) / 10 ^ length (filter is_digit fp))
          else None)"

definition exponent :: "string \<Rightarrow> int option" where
  "exponent e =
     (case split_sign e of (neg, body) \<Rightarrow>
        if digitpart_ok body
        then Some (if neg then - int (digits_nat body) else int (digits_nat body))
        else None)"

text \<open>A decimal literal, lower-cased and unsigned: mantissa and optional exponent.\<close>

definition decimal :: "string \<Rightarrow> rat option" where
  "decimal s =
     (case split_at CHR ''e'' s of
        (m, None) \<Rightarrow> mantissa m
      | (m, Some e) \<Rightarrow>
          (case (mantissa m, exponent e) of
             (Some r, Some k) \<Rightarrow> Some (if 0 \<le> k then r * 10 ^ nat k else r / 10 ^ nat (- k))
           | _ \<Rightarrow> None))"

text \<open>\<^verbatim>\<open>float(s)\<close> for an ASCII string.\<close>

definition float_of_str :: "string \<Rightarrow> py_error + pyfloat" where
  "float_of_str s0 =
     (case split_sign (strip_chars is_blank s0) of (neg, body) \<Rightarrow>
        (let low = ascii_lower body in
         if low = ''inf'' \<or> low = ''infinity'' then Inr (if neg then NegInf else PosInf)
         else if low = ''nan'' then Inr NaN
         else (case decimal low of
                 None \<Rightarrow> Inl ValueError
               | Some r \<Rightarrow> Inr (Fin (if neg then - r else r)))))"

subsection \<open>The builtins \<^verbatim>\<open>int\<close>, \<^verbatim>\<open>float\<close> and \<^verbatim>\<open>str\<close>\<close>

text \<open>\<^verbatim>\<open>int(v)\<close>: truncation toward zero on floats; the non-finite floats raise.\<close>

fun py_int :: "interp \<Rightarrow> pyval \<Rightarrow> py_error + int" where
  "py_int rp PNone = Inl TypeError"
| "py_int rp (PBool b) = Inr (if b then 1 else 0)"
| "py_int rp (PInt i) = Inr i"
| "py_int rp (PFloat (Fin r)) = Inr (if 0 \<le> r then \<lfloor>r\<rfloor> else \<lceil>r\<rceil>)"
| "py_int rp (PFloat NaN) = Inl ValueError"
| "py_int rp (PFloat PosInf) = Inl OverflowError"
| "py_int rp (PFloat NegInf) = Inl OverflowError"
| "py_int rp (PStr s) =
     (if ascii_text s then int_of_str s
      else case int_text rp s of None \<Rightarrow> Inl ValueError | Some i \<Rightarrow> Inr i)"
| "py_int rp (PList xs) = Inl TypeError"

fun py_float :: "interp \<Rightarrow> pyval \<Rightarrow> py_error + pyfloat" where
  "py_float rp PNone = Inl TypeError"
| "py_float rp (PBool b) = Inr (Fin (if b then 1 else 0))"
| "py_float rp (PInt i) = Inr (Fin (of_int i))"
| "py_float rp (PFloat f) = Inr f"
| "py_float rp (PStr s) =
     (if ascii_text s then float_of_str s
      else case float_text rp s of None \<Rightarrow> Inl ValueError | Some f \<Rightarrow> Inr f)"
| "py_float rp (PList xs) = Inl TypeError"

text \<open>
  \<^verbatim>\<open>str(v)\<close>, which is also what an f-string field \<^verbatim>\<open>{v}\<close> renders. The text of a
  float (shortest round-trip digits) and of a list (element \<^verbatim>\<open>repr\<close>s) is left to the
  interpreter \<open>rp\<close>.
\<close>

fun py_str :: "interp \<Rightarrow> pyval \<Rightarrow> string" where
  "py_str rp PNone = ''None''"
| "py_str rp (PBool b) = (if b then ''True'' else ''False'')"
| "py_str rp (PInt i) = int_str i"
| "py_str rp (PStr s) = s"
| "py_str rp v = repr_text rp v"

text \<open>Iterating over a value (\<^verbatim>\<open>for x in v\<close>, \<^verbatim>\<open>set(v)\<close>, \<^verbatim>\<open>sep.join(v)\<close>).\<close>

fun py_iter :: "interp \<Rightarrow> pyval \<Rightarrow> py_error + string list" where
  "py_iter rp (PStr s) = Inr (chars_of rp s)"
| "py_iter rp (PList xs) = Inr xs"
| "py_iter rp v = Inl TypeError"

text \<open>\<^verbatim>\<open>sep.join(v)\<close>\<close>

definition py_join :: "interp \<Rightarrow> string \<Rightarrow> pyval \<Rightarrow> py_error + string" where
  "py_join rp sep v = (case py_iter rp v of Inl e \<Rightarrow> Inl e | Inr xs \<Rightarrow> Inr (str_join sep xs))"

text \<open>\<^verbatim>\<open>s in v\<close> for a string \<open>s\<close>: substring test on a string, membership on a list.\<close>

fun py_contains :: "string \<Rightarrow> pyval \<Rightarrow> py_error + bool" where
  "py_contains s (PStr t) = Inr (sublist s t)"
| "py_contains s (PList xs) = Inr (s \<in> set xs)"
| "py_contains s v = Inl TypeError"

text \<open>\<^verbatim>\<open>v.lower()\<close>: only strings have the method.\<close>

fun py_lower :: "interp \<Rightarrow> pyval \<Rightarrow> py_error + string" where
  "py_lower rp (PStr s) = Inr (str_lower rp s)"
| "py_lower rp v = Inl AttributeError"

section \<open>Numeric normalizer (\<^verbatim>\<open>llm_pipeline/utils.py\<close>)\<close>

text \<open>
  Logging is an effect: every function that logs takes the log so far and returns it
  extended. A record keeps the level and the data the message is formatted from.
\<close>

datatype log_message =
    CouldNotParseInt pyval pyval
  | CouldNotParseFloat pyval pyval py_error
  | LLMCallFailed py_error

datatype log_record = Warning log_message

type_synonym log = "log_record list"

text \<open>
  \<^verbatim>\<open>safe_int(val, default)\<close>, lines 32-37: the handler catches \<^verbatim>\<open>ValueError\<close> and
  \<^verbatim>\<open>TypeError\<close>; any other exception of \<^verbatim>\<open>int(val)\<close> leaves the function.
\<close>

definition safe_int :: "interp \<Rightarrow> pyval \<Rightarrow> pyval \<Rightarrow> log \<Rightarrow> (py_error + pyval) \<times> log" where
  "safe_int rp val dflt lg =
     (case py_int rp val of
        Inr i \<Rightarrow> (Inr (PInt i), lg)
      | Inl e \<Rightarrow>
          if e = ValueError \<or> e = TypeError
          then (Inr dflt, lg @ [Warning (CouldNotParseInt val dflt)])
          else (Inl e, lg))"

text \<open>\<^verbatim>\<open>re.sub(r"[^\d.]", "", s)\<close>\<close>

definition digits_and_dots :: "interp \<Rightarrow> string \<Rightarrow> string" where
  "digits_and_dots rp s =
     (if ascii_text s then filter (\<lambda>c. is_digit c \<or> c = CHR ''.'') s else numeric_text rp s)"

text \<open>\<^verbatim>\<open>safe_float(val, default)\<close>, lines 40-45: the handler catches every exception.\<close>

definition safe_float :: "interp \<Rightarrow> pyval \<Rightarrow> pyval \<Rightarrow> log \<Rightarrow> (py_error + pyval) \<times> log" where
  "safe_float rp val dflt lg =
     (case py_float rp (PStr (digits_and_dots rp (py_str rp val))) of
        Inr f \<Rightarrow> (Inr (PFloat f), lg)
      | Inl e \<Rightarrow> (Inr dflt, lg @ [Warning (CouldNotParseFloat val dflt e)]))"

text \<open>
  \<^verbatim>\<open>parse_price(val)\<close>, lines 48-49. The library function \<^verbatim>\<open>random.randint\<close> is the
  parameter \<open>randint\<close>: from the two bounds it gives the integer that the generator, in the
  state it is in, draws. The call is made with the bounds \<^verbatim>\<open>100_000\<close> and \<^verbatim>\<open>900_000\<close>,
  before \<^verbatim>\<open>safe_float\<close> runs and whether or not the default is needed.
\<close>

definition parse_price ::
  "interp \<Rightarrow> (int \<Rightarrow> int \<Rightarrow> int) \<Rightarrow> pyval \<Rightarrow> log \<Rightarrow> (py_error + pyval) \<times> log" where
  "parse_price rp randint val lg = safe_float rp val (PInt (randint 100000 900000)) lg"

section \<open>Preference normalizer (\<^verbatim>\<open>app.py\<close>)\<close>

text \<open>
  The form handler of \<^verbatim>\<open>run_ui\<close> (lines 190-191) drops the entries whose value is in
  \<^verbatim>\<open>[None, "", []]\<close> before anything else sees the inputs.
\<close>

definition drop_empty :: "pydict \<Rightarrow> pydict" where
  "drop_empty raw_inputs =
     (\<lambda>k. case raw_inputs k of
             None \<Rightarrow> None
           | Some v \<Rightarrow> if v \<in> set [PNone, PStr [], PList []] then None else Some v)"

text \<open>
  \<^verbatim>\<open>parse_preferences(user_inputs_dict)\<close>, lines 44-65. A sentence is appended when the
  field's value is truthy; the two joined fields raise when the value cannot be iterated.
\<close>

definition parse_preferences :: "interp \<Rightarrow> pydict \<Rightarrow> py_error + string" where
  "parse_preferences rp d =
     (let p1 = (if truthy (dict_get d ''square_feet'')
                then [''I want a house of around '' @ py_str rp (dict_get d ''square_feet'') @ '' sq ft.'']
                else []);
          p2 = p1 @ (if truthy (dict_get d ''city'')
                then [''My preferred city is '' @ py_str rp (dict_get d ''city'') @ ''.'']
                else []);
          p3 = p2 @ (if truthy (dict_get d ''budget'')
                then [''My budget is around '' @ py_str rp (dict_get d ''budget'') @ ''.'']
                else []);
          p4 = p3 @ (if truthy (dict_get d ''features'')
                then [''I'' @ [CHR 0x27] @ ''m looking for features like: ''
                      @ py_str rp (dict_get d ''features'') @ ''.'']
                else [])
      in (case (if truthy (dict_get d ''amenities'')
                then (case py_join rp '', '' (dict_get d ''amenities'') of
                        Inl e \<Rightarrow> Inl e
                      | Inr j \<Rightarrow> Inr (p4 @ [''I want amenities like: '' @ j @ ''.'']))
                else Inr p4) of
            Inl e \<Rightarrow> Inl e
          | Inr p5 \<Rightarrow>
             (case (if truthy (dict_get d ''neighborhoods'')
                    then (case py_join rp '', '' (dict_get d ''neighborhoods'') of
                            Inl e \<Rightarrow> Inl e
                          | Inr j \<Rightarrow> Inr (p5 @ [''My preferred neighborhoods are: '' @ j @ ''.'']))
                    else Inr p5) of
                Inl e \<Rightarrow> Inl e
              | Inr p6 \<Rightarrow> Inr (str_join [CHR 0x0A] p6))))"

section \<open>Reranker (\<^verbatim>\<open>app.py\<close>)\<close>

text \<open>A retrieved document: its metadata dictionary and its text.\<close>

record document =
  metadata :: pydict
  page_content :: string

text \<open>
  Lines 105-108, the hard skip: whether the listing is from another city than the
  selected one. The test is made only when both values are truthy.
\<close>

definition city_mismatch :: "interp \<Rightarrow> pydict \<Rightarrow> pydict \<Rightarrow> py_error + bool" where
  "city_mismatch rp user_inputs md =
     (if truthy (dict_get user_inputs ''city'') \<and> truthy (dict_get md ''location'')
      then (case py_lower rp (dict_get md ''location'') of
              Inl e \<Rightarrow> Inl e
            | Inr l \<Rightarrow>
               (case py_lower rp (dict_get user_inputs ''city'') of
                  Inl e \<Rightarrow> Inl e
                | Inr c \<Rightarrow> Inr (l \<noteq> c)))
      else Inr False)"

text \<open>
  The body of the two \<^verbatim>\<open>try\<close> blocks (lines 116-119 and 126-129), which differ in the
  cap only: \<^verbatim>\<open>max(0, cap - abs(wanted - actual) / wanted)\<close>.
\<close>

definition proximity :: "interp \<Rightarrow> rat \<Rightarrow> pyval \<Rightarrow> pyval \<Rightarrow> py_error + pyfloat" where
  "proximity rp cap wanted actual =
     (case py_float rp wanted of
        Inl e \<Rightarrow> Inl e
      | Inr w \<Rightarrow>
         (case py_float rp actual of
            Inl e \<Rightarrow> Inl e
          | Inr a \<Rightarrow>
             (case f_div (f_abs (f_sub w a)) w of
                Inl e \<Rightarrow> Inl e
              | Inr q \<Rightarrow> Inr (py_max (Fin 0) (f_sub (Fin cap) q)))))"

text \<open>Step 2, budget (lines 114-121): the bare \<^verbatim>\<open>except\<close> drops every failure.\<close>

definition add_budget :: "interp \<Rightarrow> pydict \<Rightarrow> pydict \<Rightarrow> pyfloat \<Rightarrow> pyfloat" where
  "add_budget rp user_inputs md score =
     (if truthy (dict_get user_inputs ''budget'') \<and> truthy (dict_get md ''price'')
      then (case proximity rp 3 (dict_get user_inputs ''budget'') (dict_get md ''price'') of
              Inl e \<Rightarrow> score
            | Inr t \<Rightarrow> f_add score t)
      else score)"

text \<open>Step 3, square footage (lines 124-131).\<close>

definition add_square_feet :: "interp \<Rightarrow> pydict \<Rightarrow> pydict \<Rightarrow> pyfloat \<Rightarrow> pyfloat" where
  "add_square_feet rp user_inputs md score =
     (if truthy (dict_get user_inputs ''square_feet'') \<and> truthy (dict_get md ''square_feet'')
      then (case proximity rp 2 (dict_get user_inputs ''square_feet'') (dict_get md ''square_feet'') of
              Inl e \<Rightarrow> score
            | Inr t \<Rightarrow> f_add score t)
      else score)"

text \<open>
  Steps 4 and 5, bedroom and bathroom count (lines 134-141), which differ in the metadata
  key only: one point when the count, as text, occurs in the features.
\<close>

definition add_count :: "interp \<Rightarrow> string \<Rightarrow> pydict \<Rightarrow> pydict \<Rightarrow> pyfloat \<Rightarrow> py_error + pyfloat" where
  "add_count rp key user_inputs md score =
     (if md key \<noteq> None \<and> truthy (dict_get user_inputs ''features'')
      then (case py_contains (py_str rp (dict_get md key)) (dict_get user_inputs ''features'') of
              Inl e \<Rightarrow> Inl e
            | Inr found \<Rightarrow> Inr (if found then f_add score (Fin 1) else score))
      else Inr score)"

text \<open>Step 6, amenities (lines 144-147).\<close>

definition add_amenities :: "interp \<Rightarrow> pydict \<Rightarrow> pydict \<Rightarrow> pyfloat \<Rightarrow> py_error + pyfloat" where
  "add_amenities rp user_inputs md score =
     (if md ''amenities'' \<noteq> None \<and> truthy (dict_get user_inputs ''amenities'')
      then (case dict_get md ''amenities'' of
              PList theirs \<Rightarrow>
                (case py_iter rp (dict_get user_inputs ''amenities'') of
                   Inl e \<Rightarrow> Inl e
                 | Inr ours \<Rightarrow>
                     Inr (f_add score (Fin (of_nat (card (set ours \<inter> set theirs)) * (1 / 2)))))
            | _ \<Rightarrow> Inr score)
      else Inr score)"

text \<open>
  \<^verbatim>\<open>score_listing\<close>, lines 101-149. The score starts at \<^verbatim>\<open>0\<close>; a listing of another city
  returns \<^verbatim>\<open>0\<close> at once, any other gets \<^verbatim>\<open>5\<close> and the terms of steps 2 to 6. Python's
  score is an \<^verbatim>\<open>int\<close> until a float is added; only its numeric value is kept here.
\<close>

definition score_listing :: "interp \<Rightarrow> pydict \<Rightarrow> document \<Rightarrow> py_error + pyfloat" where
  "score_listing rp user_inputs individual_listing =
     (let md = metadata individual_listing in
      (case city_mismatch rp user_inputs md of
         Inl e \<Rightarrow> Inl e
       | Inr True \<Rightarrow> Inr (Fin 0)
       | Inr False \<Rightarrow>
          (case add_count rp ''number_of_bedrooms'' user_inputs md
                  (add_square_feet rp user_inputs md
                     (add_budget rp user_inputs md (f_add (Fin 0) (Fin 5)))) of
             Inl e \<Rightarrow> Inl e
           | Inr score4 \<Rightarrow>
              (case add_count rp ''number_of_bathrooms'' user_inputs md score4 of
                 Inl e \<Rightarrow> Inl e
               | Inr score5 \<Rightarrow> add_amenities rp user_inputs md score5))))"

text \<open>The list comprehension of line 152: the first listing that raises ends it.\<close>

fun score_all :: "interp \<Rightarrow> pydict \<Rightarrow> document list \<Rightarrow> py_error + (pyfloat \<times> document) list" where
  "score_all rp user_inputs [] = Inr []"
| "score_all rp user_inputs (doc # docs) =
     (case score_listing rp user_inputs doc of
        Inl e \<Rightarrow> Inl e
      | Inr s \<Rightarrow>
         (case score_all rp user_inputs docs of
            Inl e \<Rightarrow> Inl e
          | Inr rest \<Rightarrow> Inr ((s, doc) # rest)))"

text \<open>
  \<^verbatim>\<open>sorted(scored, key=lambda x: x[0], reverse=True)\<close>: the builtin sort compares keys
  with \<^verbatim>\<open><\<close> only, and keeps the input order of elements with equal keys, also when
  reversed. It is modelled by insertion from the right: an element goes in front of the
  first one whose key is not strictly greater.
\<close>

fun insort_desc :: "pyfloat \<times> 'a \<Rightarrow> (pyfloat \<times> 'a) list \<Rightarrow> (pyfloat \<times> 'a) list" where
  "insort_desc x [] = [x]"
| "insort_desc x (y # ys) = (if f_lt (fst x) (fst y) then y # insort_desc x ys else x # y # ys)"

definition sorted_desc :: "(pyfloat \<times> 'a) list \<Rightarrow> (pyfloat \<times> 'a) list" where
  "sorted_desc xs = foldr insort_desc xs []"

text \<open>
  \<^verbatim>\<open>rerank_listings(listings, user_inputs)\<close>, lines 88-155. The \<^verbatim>\<open>print\<close> of line 154
  writes to the standard output and is left out.
\<close>

definition rerank_listings :: "interp \<Rightarrow> document list \<Rightarrow> pydict \<Rightarrow> py_error + (pyfloat \<times> document) list" where
  "rerank_listings rp listings user_inputs =
     (case score_all rp user_inputs listings of
        Inl e \<Rightarrow> Inl e
      | Inr scored \<Rightarrow> Inr (take 3 (sorted_desc scored)))"

section \<open>Augmentation service (\<^verbatim>\<open>llm_pipeline/utils.py\<close>)\<close>

text \<open>
  Lines 99-105: the adjacent string literals of the parenthesised expression. Python joins
  adjacent literals into one string before anything is applied to them, the final
  \<^verbatim>\<open>""\<close> of line 105 included.
\<close>

definition description_literals :: "interp \<Rightarrow> pydict \<Rightarrow> string \<Rightarrow> int \<Rightarrow> string" where
  "description_literals rp listing preferences price =
     ''Welcome to this cozy '' @ py_str rp (dict_get listing ''number_of_bedrooms'')
     @ ''-bedroom, '' @ py_str rp (dict_get listing ''number_of_bathrooms'') @ ''-bathrooms home ''
     @ ''that could be perfect for your family in '' @ py_str rp (dict_get listing ''location'') @ ''! ''
     @ ''It offers approximately '' @ py_str rp (dict_get listing ''square_feet'')
     @ '' square feet of living space, priced at $'' @ int_commas price @ ''. ''
     @ py_str rp (dict_get listing ''page_content'') @ '' ''
     @ py_str rp (dict_get listing ''neighborhood_description'')
     @ ''This fits your preference for '' @ preferences
     @ '' with the following amenities available:'' @ [CHR 0x0A, CHR 0x0A]
     @ []"

text \<open>Lines 105-107: the generator \<^verbatim>\<open>f"- {amenity}\n" for amenity in amenities\<close>.\<close>

definition amenity_lines :: "interp \<Rightarrow> pyval \<Rightarrow> py_error + string list" where
  "amenity_lines rp amenities =
     (case py_iter rp amenities of
        Inl e \<Rightarrow> Inl e
      | Inr xs \<Rightarrow> Inr (map (\<lambda>amenity. ''- '' @ amenity @ [CHR 0x0A]) xs))"

definition prompt_header :: string where
  "prompt_header =
     ''Refine the following real estate listing description to sound more professional and appealing. ''
     @ ''Keep all the factual information intact:'' @ [CHR 0x0A, CHR 0x0A]"

text \<open>
  \<^verbatim>\<open>augment_listing_with_preferences(listing, preferences, llm)\<close>, lines 78-123. The
  language model is a function from the prompt to its answer or to the exception it
  raises. The method call \<^verbatim>\<open>.join(...)\<close> of line 105 applies to the whole joined literal
  of lines 100-105, which therefore is the separator put between the amenity lines.
  \<^verbatim>\<open>int(price)\<close> and the iteration over the amenities run before the \<^verbatim>\<open>try\<close>. The
  \<^verbatim>\<open>print\<close> of line 86 writes to the standard output and is left out.
\<close>

definition augment_listing_with_preferences ::
  "interp \<Rightarrow> pydict \<Rightarrow> string \<Rightarrow> (string \<Rightarrow> py_error + string) \<Rightarrow> log
     \<Rightarrow> (py_error + string) \<times> log" where
  "augment_listing_with_preferences rp listing preferences llm lg =
     (case py_int rp (dict_get listing ''price'') of
        Inl e \<Rightarrow> (Inl e, lg)
      | Inr price \<Rightarrow>
         (case amenity_lines rp (dict_get listing ''amenities'') of
            Inl e \<Rightarrow> (Inl e, lg)
          | Inr bullets \<Rightarrow>
             (let raw_augmented_description =
                    str_join (description_literals rp listing preferences price) bullets;
                  prompt = prompt_header @ raw_augmented_description
              in (case llm prompt of
                    Inr refined \<Rightarrow> (Inr (strip rp refined), lg)
                  | Inl e \<Rightarrow> (Inr raw_augmented_description, lg @ [Warning (LLMCallFailed e)])))))"

section \<open>Vocabulary of the properties\<close>

text \<open>\<^verbatim>\<open>x <= y\<close> on floats; false as soon as one side is NaN.\<close>

fun f_le :: "pyfloat \<Rightarrow> pyfloat \<Rightarrow> bool" where
  "f_le NaN y = False"
| "f_le x NaN = False"
| "f_le (Fin a) (Fin b) = (a \<le> b)"
| "f_le NegInf y = True"
| "f_le x PosInf = True"
| "f_le x y = False"

text \<open>A list of scores in descending order: each one is at least every later one.\<close>

definition descending :: "pyfloat list \<Rightarrow> bool" where
  "descending ss = sorted_wrt (\<lambda>a b. f_le b a) ss"

fun is_str :: "pyval \<Rightarrow> bool" where
  "is_str (PStr s) = True"
| "is_str v = False"

fun iterable :: "pyval \<Rightarrow> bool" where
  "iterable (PStr s) = True"
| "iterable (PList xs) = True"
| "iterable v = False"

text \<open>
  The types the data model gives the fields that the reranker calls methods on: the
  preferred city and a listing's location are strings, the features are text (or a list),
  the amenities a list of strings (or text). A value that is not truthy is never touched,
  whatever its type.
\<close>

definition well_typed_inputs :: "pydict \<Rightarrow> bool" where
  "well_typed_inputs user_inputs =
     ((truthy (dict_get user_inputs ''city'') \<longrightarrow> is_str (dict_get user_inputs ''city''))
      \<and> (truthy (dict_get user_inputs ''features'') \<longrightarrow> iterable (dict_get user_inputs ''features''))
      \<and> (truthy (dict_get user_inputs ''amenities'') \<longrightarrow> iterable (dict_get user_inputs ''amenities'')))"

definition well_typed_listing :: "document \<Rightarrow> bool" where
  "well_typed_listing d =
     (truthy (dict_get (metadata d) ''location'') \<longrightarrow> is_str (dict_get (metadata d) ''location''))"

text \<open>A listing without its amenities entry.\<close>

definition without_amenities :: "document \<Rightarrow> document" where
  "without_amenities d = d\<lparr>metadata := (metadata d)(''amenities'' := None)\<rparr>"

text \<open>
  The contract of \<^verbatim>\<open>random.randint(a, b)\<close>: a random integer \<open>N\<close> with \<open>a \<le> N \<le> b\<close>.
  Which integer is drawn depends on the state of the generator; the contract is all that is
  known of a generator \<open>randint\<close>.
\<close>

definition randint_contract :: "(int \<Rightarrow> int \<Rightarrow> int) \<Rightarrow> bool" where
  "randint_contract randint = (\<forall>a b. a \<le> b \<longrightarrow> a \<le> randint a b \<and> randint a b \<le> b)"

text \<open>Set as the specification words it: present, not the empty string, not the empty sequence.\<close>

definition present_nonempty :: "pyval \<Rightarrow> bool" where
  "present_nonempty v = (v \<noteq> PNone \<and> v \<noteq> PStr [] \<and> v \<noteq> PList [])"

text \<open>
  The query string as the specification describes it, to compare \<open>parse_preferences\<close>
  with: one sentence per field that is set, in the fixed field order, joined by newlines.
  The amenities and the neighborhoods are comma-joined: the items, separated by a comma
  and a space. A text is one item and stands as it was typed; a listing's amenities are
  displayed that way too (\<^verbatim>\<open>search_listings\<close>, lines 267-273, puts a raw string that is
  not JSON into a list before joining).
\<close>

definition field_order :: "string list" where
  "field_order = [''square_feet'', ''city'', ''budget'', ''features'', ''amenities'', ''neighborhoods'']"

definition comma_joined :: "pyval \<Rightarrow> string" where
  "comma_joined v = (case v of PList items \<Rightarrow> str_join '', '' items | PStr s \<Rightarrow> s | _ \<Rightarrow> [])"

definition spec_sentence :: "interp \<Rightarrow> string \<Rightarrow> pyval \<Rightarrow> string" where
  "spec_sentence rp field v =
     (if field = ''square_feet'' then ''I want a house of around '' @ py_str rp v @ '' sq ft.''
      else if field = ''city'' then ''My preferred city is '' @ py_str rp v @ ''.''
      else if field = ''budget'' then ''My budget is around '' @ py_str rp v @ ''.''
      else if field = ''features'' then
        ''I'' @ [CHR 0x27] @ ''m looking for features like: '' @ py_str rp v @ ''.''
      else if field = ''amenities'' then ''I want amenities like: '' @ comma_joined v @ ''.''
      else ''My preferred neighborhoods are: '' @ comma_joined v @ ''.'')"

definition spec_query :: "interp \<Rightarrow> pydict \<Rightarrow> string" where
  "spec_query rp raw_inputs =
     str_join [CHR 0x0A]
       (concat (map (\<lambda>field. if present_nonempty (dict_get raw_inputs field)
                               then [spec_sentence rp field (dict_get raw_inputs field)]
                               else [])
                    field_order))"

text \<open>
  The values a raw-input mapping holds: nothing, text, or a sequence of texts. On these,
  being truthy and being set are the same.
\<close>

fun form_value :: "pyval \<Rightarrow> bool" where
  "form_value PNone = True"
| "form_value (PStr s) = True"
| "form_value (PList items) = True"
| "form_value v = False"

section \<open>Example data\<close>

text \<open>
  The end-to-end scenario of the specification: the preference record, two Berlin listings
  and Munich listings.
\<close>

definition scenario_inputs :: pydict where
  "scenario_inputs =
     [''budget'' \<mapsto> PStr ''450000'', ''city'' \<mapsto> PStr ''Berlin'', ''square_feet'' \<mapsto> PStr ''1200'']"

definition listing_of :: "string \<Rightarrow> string \<Rightarrow> int \<Rightarrow> int \<Rightarrow> document" where
  "listing_of title city price sqft =
     \<lparr>metadata = [''title'' \<mapsto> PStr title, ''location'' \<mapsto> PStr city, ''price'' \<mapsto> PInt price,
                  ''square_feet'' \<mapsto> PInt sqft, ''number_of_bedrooms'' \<mapsto> PInt 3,
                  ''number_of_bathrooms'' \<mapsto> PInt 2, ''amenities'' \<mapsto> PList [''gym'', ''pool'']],
      page_content = title\<rparr>"

text \<open>A listing is in a city, and has a price and a size that \<^verbatim>\<open>float\<close> reads as given.\<close>

definition located_in :: "document \<Rightarrow> string \<Rightarrow> bool" where
  "located_in d city = (dict_get (metadata d) ''location'' = PStr city)"

definition priced_and_sized :: "interp \<Rightarrow> document \<Rightarrow> rat \<Rightarrow> rat \<Rightarrow> bool" where
  "priced_and_sized rp d price sqft =
     (truthy (dict_get (metadata d) ''price'')
      \<and> py_float rp (dict_get (metadata d) ''price'') = Inr (Fin price)
      \<and> truthy (dict_get (metadata d) ''square_feet'')
      \<and> py_float rp (dict_get (metadata d) ''square_feet'') = Inr (Fin sqft))"

text \<open>
  An interpreter to instantiate \<open>rp\<close> with where a closed example needs one (the examples
  are ASCII and have no float or list to render, so none of its fields is ever consulted),
  and a language model that always fails.
\<close>

definition plain_repr :: interp where
  "plain_repr =
     \<lparr>repr_text = (\<lambda>v. ''?''), lower_text = (\<lambda>s. s), strip_text = (\<lambda>s. s),
      chars_text = (\<lambda>s. [s]), numeric_text = (\<lambda>s. s), float_text = (\<lambda>s. None),
      int_text = (\<lambda>s. None)\<rparr>"

text \<open>Two generators that keep the contract: the least and the greatest of the range.\<close>

definition lowest_draw :: "int \<Rightarrow> int \<Rightarrow> int" where
  "lowest_draw a b = a"

definition highest_draw :: "int \<Rightarrow> int \<Rightarrow> int" where
  "highest_draw a b = b"

text \<open>A generator that draws \<open>n\<close> whenever the range allows it.\<close>

definition drawing :: "int \<Rightarrow> int \<Rightarrow> int \<Rightarrow> int" where
  "drawing n a b = (if a \<le> n \<and> n \<le> b then n else a)"

definition failing_llm :: "string \<Rightarrow> py_error + string" where
  "failing_llm prompt = Inl (ServiceError ''timeout'')"

definition berlin_best :: document where
  "berlin_best = listing_of ''Loft'' ''Berlin'' 440000 1180"

definition berlin_second :: document where
  "berlin_second = listing_of ''Penthouse'' ''Berlin'' 600000 2000"

definition munich_1 :: document where
  "munich_1 = listing_of ''Villa'' ''Munich'' 440000 1180"

definition munich_2 :: document where
  "munich_2 = listing_of ''Flat'' ''Munich'' 450000 1200"

definition munich_3 :: document where
  "munich_3 = listing_of ''Studio'' ''Munich'' 300000 600"

definition scenario_listings :: "document list" where
  "scenario_listings = [munich_1, berlin_second, munich_2, berlin_best, munich_3]"

text \<open>A listing whose location is the empty string, and one without any location.\<close>

definition blank_location :: document where
  "blank_location = listing_of ''Barn'' [] 440000 1180"

definition unlocated :: document where
  "unlocated = \<lparr>metadata = [''title'' \<mapsto> PStr ''Cabin''], page_content = ''Cabin''\<rparr>"

text \<open>A listing whose location is a number, against the data model.\<close>

definition numeric_location :: document where
  "numeric_location = \<lparr>metadata = [''location'' \<mapsto> PInt 5], page_content = []\<rparr>"

text \<open>Preferences that set amenities only.\<close>

definition amenity_inputs :: pydict where
  "amenity_inputs = [''amenities'' \<mapsto> PList [''pool'', ''garden'']]"

text \<open>
  Raw inputs as the search form of \<^verbatim>\<open>run_ui\<close> builds them (lines 181-188): six texts,
  the budget, the features and the neighborhoods left empty.
\<close>

definition form_inputs :: pydict where
  "form_inputs =
     [''square_feet'' \<mapsto> PStr ''1200'', ''city'' \<mapsto> PStr ''Berlin'', ''budget'' \<mapsto> PStr [],
      ''features'' \<mapsto> PStr [], ''amenities'' \<mapsto> PStr ''pool, gym'', ''neighborhoods'' \<mapsto> PStr []]"

text \<open>Raw inputs whose amenities and neighborhoods are sequences.\<close>

definition example_raw_inputs :: pydict where
  "example_raw_inputs =
     [''square_feet'' \<mapsto> PStr ''1200'', ''city'' \<mapsto> PStr ''Berlin'', ''budget'' \<mapsto> PStr [],
      ''amenities'' \<mapsto> PList [''pool'', ''gym''], ''neighborhoods'' \<mapsto> PList []]"

text \<open>A listing with a single amenity, and the same with none.\<close>

definition one_amenity_listing :: pydict where
  "one_amenity_listing = (metadata berlin_best)(''amenities'' \<mapsto> PList [''Balcony''])"

definition no_amenity_listing :: pydict where
  "no_amenity_listing = (metadata berlin_best)(''amenities'' \<mapsto> PList [])"

text \<open>The score of a listing that passed the city test, before the count and amenity steps.\<close>

definition base_score :: "interp \<Rightarrow> pydict \<Rightarrow> pydict \<Rightarrow> pyfloat" where
  "base_score rp ui md = add_square_feet rp ui md (add_budget rp ui md (Fin 5))"

section \<open>Facts about the float order\<close>

lemma f_lt_irrefl: "\<not> f_lt a a"
  by (cases a) auto

lemma f_lt_imp_le: "f_lt a b \<Longrightarrow> f_le a b"
  by (cases a; cases b) auto

lemma not_f_lt_imp_le: "\<not> f_lt a b \<Longrightarrow> a \<noteq> NaN \<Longrightarrow> b \<noteq> NaN \<Longrightarrow> f_le b a"
  by (cases a; cases b) auto

lemma f_le_neq_imp_lt: "f_le a b \<Longrightarrow> a \<noteq> b \<Longrightarrow> f_lt a b"
  by (cases a; cases b) auto

lemma f_le_imp_not_lt: "f_le a b \<Longrightarrow> \<not> f_lt b a"
  by (cases a; cases b) auto

lemma f_le_trans: "f_le a b \<Longrightarrow> f_le b c \<Longrightarrow> f_le a c"
  by (cases a; cases b; cases c) auto

lemma f_le_not_NaN: "f_le a b \<Longrightarrow> a \<noteq> NaN \<and> b \<noteq> NaN"
  by (cases a; cases b) auto

lemma py_max_zero: "f_le (Fin 0) (py_max (Fin 0) x)"
  by (cases x) (auto simp: py_max_def)

lemma f_add_mono: "f_le (Fin a) x \<Longrightarrow> f_le (Fin 0) y \<Longrightarrow> f_le (Fin a) (f_add x y)"
  by (cases x; cases y) auto

section \<open>Every score is zero or at least five\<close>

lemma proximity_nonneg: "proximity rp cap w a = Inr t \<Longrightarrow> f_le (Fin 0) t"
  by (auto simp: proximity_def py_max_zero split: sum.splits)

lemma add_budget_mono: "f_le (Fin a) s \<Longrightarrow> f_le (Fin a) (add_budget rp ui md s)"
  by (auto simp: add_budget_def f_add_mono proximity_nonneg split: sum.splits)

lemma add_square_feet_mono: "f_le (Fin a) s \<Longrightarrow> f_le (Fin a) (add_square_feet rp ui md s)"
  by (auto simp: add_square_feet_def f_add_mono proximity_nonneg split: sum.splits)

lemma add_count_mono: "f_le (Fin a) s \<Longrightarrow> add_count rp key ui md s = Inr s' \<Longrightarrow> f_le (Fin a) s'"
  by (auto simp: add_count_def f_add_mono split: sum.splits if_splits)

lemma add_amenities_mono: "f_le (Fin a) s \<Longrightarrow> add_amenities rp ui md s = Inr s' \<Longrightarrow> f_le (Fin a) s'"
  by (auto simp: add_amenities_def f_add_mono split: sum.splits if_splits pyval.splits)

lemma base_score_ge_5: "f_le (Fin 5) (base_score rp ui md)"
  unfolding base_score_def by (intro add_square_feet_mono add_budget_mono) simp

lemma score_listing_unfold:
  "score_listing rp ui d =
     (case city_mismatch rp ui (metadata d) of
        Inl e \<Rightarrow> Inl e
      | Inr b \<Rightarrow>
          if b then Inr (Fin 0)
          else (case add_count rp ''number_of_bedrooms'' ui (metadata d) (base_score rp ui (metadata d)) of
                  Inl e \<Rightarrow> Inl e
                | Inr s4 \<Rightarrow>
                   (case add_count rp ''number_of_bathrooms'' ui (metadata d) s4 of
                      Inl e \<Rightarrow> Inl e
                    | Inr s5 \<Rightarrow> add_amenities rp ui (metadata d) s5)))"
  by (simp add: score_listing_def base_score_def Let_def split: sum.splits bool.splits)

lemma score_listing_passed:
  assumes "score_listing rp ui d = Inr s" "city_mismatch rp ui (metadata d) = Inr False"
  shows "f_le (Fin 5) s"
proof -
  from assms obtain s4 s5 where
    s4: "add_count rp ''number_of_bedrooms'' ui (metadata d) (base_score rp ui (metadata d)) = Inr s4" and
    s5: "add_count rp ''number_of_bathrooms'' ui (metadata d) s4 = Inr s5" and
    s6: "add_amenities rp ui (metadata d) s5 = Inr s"
    by (auto simp: score_listing_unfold split: sum.splits)
  from add_amenities_mono [OF add_count_mono [OF add_count_mono [OF base_score_ge_5 s4] s5] s6]
  show ?thesis .
qed

lemma score_listing_range:
  assumes "score_listing rp ui d = Inr s"
  shows "s = Fin 0 \<or> f_le (Fin 5) s"
proof (cases "city_mismatch rp ui (metadata d)")
  case (Inl e)
  with assms show ?thesis by (simp add: score_listing_unfold)
next
  case (Inr b)
  show ?thesis
  proof (cases b)
    case True
    with Inr assms show ?thesis by (simp add: score_listing_unfold)
  next
    case False
    with Inr assms show ?thesis by (simp add: score_listing_passed)
  qed
qed

lemma score_listing_not_NaN: "score_listing rp ui d = Inr s \<Longrightarrow> s \<noteq> NaN"
  using score_listing_range [of rp ui d s] by (auto dest: f_le_not_NaN)

text \<open>With the fields typed as the data model types them, scoring raises nothing.\<close>

lemma add_count_total:
  "truthy (dict_get ui ''features'') \<longrightarrow> iterable (dict_get ui ''features'') \<Longrightarrow>
   \<exists>s'. add_count rp key ui md s = Inr s'"
  by (cases "dict_get ui ''features''") (auto simp: add_count_def)

lemma add_amenities_total:
  "truthy (dict_get ui ''amenities'') \<longrightarrow> iterable (dict_get ui ''amenities'') \<Longrightarrow>
   \<exists>s'. add_amenities rp ui md s = Inr s'"
  by (cases "dict_get ui ''amenities''") (auto simp: add_amenities_def split: pyval.splits)

lemma city_mismatch_total:
  "well_typed_inputs ui \<Longrightarrow> well_typed_listing d \<Longrightarrow> \<exists>b. city_mismatch rp ui (metadata d) = Inr b"
  by (cases "dict_get ui ''city''"; cases "dict_get (metadata d) ''location''")
     (auto simp: city_mismatch_def well_typed_inputs_def well_typed_listing_def)

lemma score_listing_total:
  assumes "well_typed_inputs ui" "well_typed_listing d"
  shows "\<exists>s. score_listing rp ui d = Inr s"
proof -
  from assms obtain b where b: "city_mismatch rp ui (metadata d) = Inr b"
    using city_mismatch_total by blast
  from assms(1) have f: "truthy (dict_get ui ''features'') \<longrightarrow> iterable (dict_get ui ''features'')"
    and a: "truthy (dict_get ui ''amenities'') \<longrightarrow> iterable (dict_get ui ''amenities'')"
    by (simp_all add: well_typed_inputs_def)
  obtain s4 where s4:
    "add_count rp ''number_of_bedrooms'' ui (metadata d) (base_score rp ui (metadata d)) = Inr s4"
    using add_count_total [OF f] by blast
  obtain s5 where s5: "add_count rp ''number_of_bathrooms'' ui (metadata d) s4 = Inr s5"
    using add_count_total [OF f] by blast
  obtain s6 where s6: "add_amenities rp ui (metadata d) s5 = Inr s6"
    using add_amenities_total [OF a] by blast
  from b s4 s5 s6 show ?thesis by (simp add: score_listing_unfold)
qed

section \<open>The scored list and its sorting\<close>

lemma score_all_docs: "score_all rp ui ds = Inr scored \<Longrightarrow> map snd scored = ds"
  by (induction ds arbitrary: scored) (auto split: sum.splits)

lemma score_all_scores:
  "score_all rp ui ds = Inr scored \<Longrightarrow> p \<in> set scored \<Longrightarrow> score_listing rp ui (snd p) = Inr (fst p)"
  by (induction ds arbitrary: scored) (auto split: sum.splits)

lemma score_all_total:
  "\<forall>d\<in>set ds. \<exists>s. score_listing rp ui d = Inr s \<Longrightarrow> \<exists>scored. score_all rp ui ds = Inr scored"
  by (induction ds) (auto split: sum.splits)

lemma score_all_append:
  "score_all rp ui (xs @ ys) =
     (case score_all rp ui xs of
        Inl e \<Rightarrow> Inl e
      | Inr a \<Rightarrow> (case score_all rp ui ys of Inl e \<Rightarrow> Inl e | Inr b \<Rightarrow> Inr (a @ b)))"
  by (induction xs) (auto split: sum.splits)

lemma length_insort_desc: "length (insort_desc x ys) = Suc (length ys)"
  by (induction ys) auto

lemma length_sorted_desc: "length (sorted_desc xs) = length xs"
  by (induction xs) (auto simp: sorted_desc_def length_insort_desc)

lemma set_insort_desc: "set (insort_desc x ys) = insert x (set ys)"
  by (induction ys) auto

lemma set_sorted_desc: "set (sorted_desc xs) = set xs"
  by (induction xs) (auto simp: sorted_desc_def set_insort_desc)

lemma mset_insort_desc: "mset (insort_desc x ys) = add_mset x (mset ys)"
  by (induction ys) auto

lemma mset_sorted_desc: "mset (sorted_desc xs) = mset xs"
  by (induction xs) (auto simp: sorted_desc_def mset_insort_desc)

text \<open>In a descending list, no entry behind the first \<open>n\<close> exceeds one of them.\<close>

lemma descending_take_drop:
  assumes "descending (map fst xs)" "p \<in> set (take n xs)" "q \<in> set (drop n xs)"
  shows "f_le (fst q) (fst p)"
proof -
  have "map fst xs = map fst (take n xs) @ map fst (drop n xs)"
    by (simp flip: map_append)
  with assms(1) have "sorted_wrt (\<lambda>a b. f_le b a) (map fst (take n xs) @ map fst (drop n xs))"
    by (simp add: descending_def)
  with assms(2,3) show ?thesis
    by (auto simp: sorted_wrt_append)
qed

lemma filter_insort_desc:
  "filter (\<lambda>p. fst p = k) (insort_desc x ys) =
     (if fst x = k then x # filter (\<lambda>p. fst p = k) ys else filter (\<lambda>p. fst p = k) ys)"
  by (induction ys) (auto simp: f_lt_irrefl)

lemma filter_sorted_desc:
  "filter (\<lambda>p. fst p = k) (sorted_desc xs) = filter (\<lambda>p. fst p = k) xs"
  by (induction xs) (auto simp: sorted_desc_def filter_insort_desc)

lemma descending_insort_desc:
  assumes "descending (map fst ys)" "fst x \<noteq> NaN" "\<forall>p\<in>set ys. fst p \<noteq> NaN"
  shows "descending (map fst (insort_desc x ys))"
  using assms
proof (induction ys)
  case Nil
  then show ?case by (simp add: descending_def)
next
  case (Cons y ys)
  show ?case
  proof (cases "f_lt (fst x) (fst y)")
    case True
    with Cons show ?thesis
      by (auto simp: descending_def set_insort_desc f_lt_imp_le)
  next
    case False
    with Cons.prems have yx: "f_le (fst y) (fst x)"
      by (simp add: not_f_lt_imp_le)
    have "\<forall>z\<in>set ys. f_le (fst z) (fst x)"
    proof
      fix z assume "z \<in> set ys"
      with Cons.prems(1) have "f_le (fst z) (fst y)" by (auto simp: descending_def)
      then show "f_le (fst z) (fst x)" using yx by (rule f_le_trans)
    qed
    with False yx Cons.prems(1) show ?thesis
      by (auto simp: descending_def)
  qed
qed

lemma descending_sorted_desc:
  "\<forall>p\<in>set xs. fst p \<noteq> NaN \<Longrightarrow> descending (map fst (sorted_desc xs))"
proof (induction xs)
  case Nil
  then show ?case by (simp add: sorted_desc_def descending_def)
next
  case (Cons x xs)
  then have "descending (map fst (insort_desc x (sorted_desc xs)))"
    by (intro descending_insort_desc) (auto simp: set_sorted_desc)
  then show ?case by (simp add: sorted_desc_def)
qed

lemma descending_take: "descending ss \<Longrightarrow> descending (take n ss)"
  by (simp add: descending_def sorted_wrt_take)

lemma rerank_listings_Inr:
  "rerank_listings rp listings ui = Inr out \<longleftrightarrow>
     (\<exists>scored. score_all rp ui listings = Inr scored \<and> out = take 3 (sorted_desc scored))"
  by (auto simp: rerank_listings_def split: sum.splits)

section \<open>Claims about the reranker\<close>

lemma city_mismatch_differs:
  assumes "dict_get ui ''city'' = PStr c" "c \<noteq> []"
    "dict_get (metadata d) ''location'' = PStr l" "l \<noteq> []" "str_lower rp l \<noteq> str_lower rp c"
  shows "city_mismatch rp ui (metadata d) = Inr True"
  using assms by (simp add: city_mismatch_def)

lemma city_mismatch_no_location:
  "\<not> truthy (dict_get md ''location'') \<Longrightarrow> city_mismatch rp ui md = Inr False"
  by (simp add: city_mismatch_def)

lemma score_listing_differs:
  assumes "dict_get ui ''city'' = PStr c" "c \<noteq> []"
    "dict_get (metadata d) ''location'' = PStr l" "l \<noteq> []" "str_lower rp l \<noteq> str_lower rp c"
  shows "score_listing rp ui d = Inr (Fin 0)"
  using city_mismatch_differs [OF assms] by (simp add: score_listing_unfold)

lemma score_listing_no_location:
  assumes "well_typed_inputs ui" "\<not> truthy (dict_get (metadata d) ''location'')"
  shows "\<exists>s. score_listing rp ui d = Inr s \<and> f_le (Fin 5) s"
proof -
  from assms have "well_typed_listing d" by (simp add: well_typed_listing_def)
  with assms(1) obtain s where s: "score_listing rp ui d = Inr s"
    using score_listing_total by blast
  with assms(2) have "f_le (Fin 5) s"
    by (intro score_listing_passed [OF s]) (rule city_mismatch_no_location)
  with s show ?thesis by blast
qed

lemma sorted_desc_pair_swap:
  "f_lt a b \<Longrightarrow> sorted_desc [(a, x), (b, y)] = [(b, y), (a, x)]"
  by (simp add: sorted_desc_def)

text \<open>
  C10. Every score that \<open>rerank_listings\<close> returns is exactly 0 or at least 5. A listing
  whose metadata has no location, or a location that is not truthy, passes the city test
  whatever city the preferences set: when scoring returns its score is at least 5, and with
  well-typed preferences scoring does return. Such a listing is ranked above a listing of
  another city (one whose \<^verbatim>\<open>lower()\<close> differs from that of the preferred city) that came
  before it in the input.
\<close>

theorem scores_zero_or_at_least_five:
  "(\<forall>out. rerank_listings rp listings ui = Inr out \<longrightarrow>
       (\<forall>p\<in>set out. fst p = Fin 0 \<or> f_le (Fin 5) (fst p)))
   \<and> (\<forall>s. \<not> truthy (dict_get (metadata d) ''location'') \<and> score_listing rp ui d = Inr s \<longrightarrow>
          f_le (Fin 5) s)
   \<and> (well_typed_inputs ui \<and> \<not> truthy (dict_get (metadata d) ''location'') \<longrightarrow>
        (\<exists>s. score_listing rp ui d = Inr s \<and> f_le (Fin 5) s))
   \<and> (well_typed_inputs ui \<and> \<not> truthy (dict_get (metadata d) ''location'')
        \<and> dict_get ui ''city'' = PStr c \<and> c \<noteq> []
        \<and> dict_get (metadata a) ''location'' = PStr l \<and> l \<noteq> [] \<and> str_lower rp l \<noteq> str_lower rp c \<longrightarrow>
        (\<exists>s. rerank_listings rp [a, d] ui = Inr [(s, d), (Fin 0, a)] \<and> f_le (Fin 5) s))"
proof (intro conjI allI impI)
  fix out
  assume out: "rerank_listings rp listings ui = Inr out"
  then obtain scored where scored: "score_all rp ui listings = Inr scored"
    and o: "out = take 3 (sorted_desc scored)"
    by (auto simp: rerank_listings_Inr)
  show "\<forall>p\<in>set out. fst p = Fin 0 \<or> f_le (Fin 5) (fst p)"
  proof
    fix p assume "p \<in> set out"
    with o have "p \<in> set scored"
      by (auto dest: in_set_takeD simp: set_sorted_desc)
    from score_all_scores [OF scored this] show "fst p = Fin 0 \<or> f_le (Fin 5) (fst p)"
      by (rule score_listing_range)
  qed
next
  fix s
  assume "\<not> truthy (dict_get (metadata d) ''location'') \<and> score_listing rp ui d = Inr s"
  then show "f_le (Fin 5) s"
    by (auto intro: score_listing_passed city_mismatch_no_location)
next
  assume "well_typed_inputs ui \<and> \<not> truthy (dict_get (metadata d) ''location'')"
  then show "\<exists>s. score_listing rp ui d = Inr s \<and> f_le (Fin 5) s"
    by (simp add: score_listing_no_location)
next
  assume h: "well_typed_inputs ui \<and> \<not> truthy (dict_get (metadata d) ''location'')
        \<and> dict_get ui ''city'' = PStr c \<and> c \<noteq> []
        \<and> dict_get (metadata a) ''location'' = PStr l \<and> l \<noteq> [] \<and> str_lower rp l \<noteq> str_lower rp c"
  then obtain s where s: "score_listing rp ui d = Inr s" and s5: "f_le (Fin 5) s"
    using score_listing_no_location by blast
  from h have a: "score_listing rp ui a = Inr (Fin 0)"
    by (intro score_listing_differs [of ui c a l]) simp_all
  from s5 have "f_lt (Fin 0) s" by (cases s) auto
  then have "sorted_desc [(Fin 0, a), (s, d)] = [(s, d), (Fin 0, a)]"
    by (rule sorted_desc_pair_swap)
  with s a s5 show "\<exists>s. rerank_listings rp [a, d] ui = Inr [(s, d), (Fin 0, a)] \<and> f_le (Fin 5) s"
    by (simp add: rerank_listings_def)
qed

text \<open>
  Without the typing the code can raise: a truthy location that is not a string has no
  method \<^verbatim>\<open>lower\<close>.
\<close>

lemma rerank_raises_on_numeric_location:
  "rerank_listings rp [numeric_location] scenario_inputs = Inl AttributeError"
  by (simp add: rerank_listings_def score_listing_unfold city_mismatch_def numeric_location_def
      scenario_inputs_def dict_get_def)

text \<open>
  C3. With the fields typed as the data model types them, \<open>rerank_listings\<close> returns a
  list; whenever it returns one, the list has \<open>min 3 (length listings)\<close> entries, in
  descending order of score, each of them a listing of the input paired with the score
  that \<open>score_listing\<close> gives it. The list is the first three of a descending
  rearrangement of all the input listings with their scores, so no listing left out scores
  more than one that is returned. The empty candidate list gives the empty list.
\<close>

theorem rerank_returns_top_three_descending:
  "(well_typed_inputs ui \<and> (\<forall>d\<in>set listings. well_typed_listing d) \<longrightarrow>
      (\<exists>out. rerank_listings rp listings ui = Inr out))
   \<and> (\<forall>out. rerank_listings rp listings ui = Inr out \<longrightarrow>
        length out = min 3 (length listings) \<and> length out \<le> 3 \<and> descending (map fst out)
        \<and> (\<forall>p\<in>set out. snd p \<in> set listings \<and> score_listing rp ui (snd p) = Inr (fst p))
        \<and> (\<exists>scored ranked.
              map snd scored = listings
              \<and> (\<forall>p\<in>set scored. score_listing rp ui (snd p) = Inr (fst p))
              \<and> mset ranked = mset scored
              \<and> descending (map fst ranked)
              \<and> out = take 3 ranked
              \<and> (\<forall>p\<in>set out. \<forall>q\<in>set (drop 3 ranked). f_le (fst q) (fst p))))
   \<and> rerank_listings rp [] ui = Inr []"
proof (intro conjI allI impI)
  assume "well_typed_inputs ui \<and> (\<forall>d\<in>set listings. well_typed_listing d)"
  then have "\<forall>d\<in>set listings. \<exists>s. score_listing rp ui d = Inr s"
    by (auto intro: score_listing_total)
  then obtain scored where "score_all rp ui listings = Inr scored"
    using score_all_total by blast
  then show "\<exists>out. rerank_listings rp listings ui = Inr out"
    by (simp add: rerank_listings_def)
next
  fix out
  assume "rerank_listings rp listings ui = Inr out"
  then obtain scored where scored: "score_all rp ui listings = Inr scored"
    and o: "out = take 3 (sorted_desc scored)"
    by (auto simp: rerank_listings_Inr)
  note docs = score_all_docs [OF scored]
  from docs have len: "length scored = length listings"
    by (metis length_map)
  with o show "length out = min 3 (length listings)"
    by (simp add: length_sorted_desc min.commute)
  then show "length out \<le> 3" by simp
  have "\<forall>p\<in>set scored. fst p \<noteq> NaN"
    using score_all_scores [OF scored] score_listing_not_NaN by blast
  then have ranked: "descending (map fst (sorted_desc scored))"
    by (rule descending_sorted_desc)
  then have "descending (take 3 (map fst (sorted_desc scored)))"
    by (rule descending_take)
  with o show "descending (map fst out)" by (simp add: take_map)
  have sub: "set out \<subseteq> set scored"
    using o by (auto dest: in_set_takeD simp: set_sorted_desc)
  have scores: "\<forall>p\<in>set scored. score_listing rp ui (snd p) = Inr (fst p)"
    using score_all_scores [OF scored] by blast
  show "\<forall>p\<in>set out. snd p \<in> set listings \<and> score_listing rp ui (snd p) = Inr (fst p)"
  proof
    fix p assume "p \<in> set out"
    with sub have p: "p \<in> set scored" by blast
    then have "snd p \<in> set (map snd scored)" by simp
    with docs scores p show "snd p \<in> set listings \<and> score_listing rp ui (snd p) = Inr (fst p)"
      by simp
  qed
  have top: "\<forall>p\<in>set out. \<forall>q\<in>set (drop 3 (sorted_desc scored)). f_le (fst q) (fst p)"
    using o descending_take_drop [OF ranked] by blast
  show "\<exists>scored ranked.
          map snd scored = listings
          \<and> (\<forall>p\<in>set scored. score_listing rp ui (snd p) = Inr (fst p))
          \<and> mset ranked = mset scored
          \<and> descending (map fst ranked)
          \<and> out = take 3 ranked
          \<and> (\<forall>p\<in>set out. \<forall>q\<in>set (drop 3 ranked). f_le (fst q) (fst p))"
    using docs scores mset_sorted_desc [of scored] ranked o top by blast
next
  show "rerank_listings rp [] ui = Inr []"
    by (simp add: rerank_listings_def sorted_desc_def)
qed

lemma subseq_pair_append: "subseq [x, y] (a @ x # b @ y # c)"
proof -
  have "subseq [y] (b @ y # c)"
    by (simp add: list_emb_append2)
  then have "subseq [x, y] (x # b @ y # c)"
    by simp
  then show ?thesis
    by (rule list_emb_append2)
qed

lemma subseq_pair_split:
  assumes "subseq [x, y] zs"
  shows "\<exists>a b c. zs = a @ x # b @ y # c"
proof -
  from list_emb_ConsD [OF assms] obtain a rest where zs: "zs = a @ x # rest" and r: "subseq [y] rest"
    by auto
  from list_emb_ConsD [OF r] obtain b c where "rest = b @ y # c"
    by auto
  with zs show ?thesis by blast
qed

text \<open>Of two entries with the same key, the one that comes first in the output came first.\<close>

lemma occurs_before_preserved:
  assumes pre: "\<And>k. prefix (filter (\<lambda>p. fst p = k) out) (filter (\<lambda>p. fst p = k) scored)"
    and out: "out = front @ x # mid @ y # rear" and eq: "fst x = fst y"
  shows "\<exists>front' mid' rear'. scored = front' @ x # mid' @ y # rear'"
proof -
  let ?P = "\<lambda>p. fst p = fst x"
  have "filter ?P out = filter ?P front @ x # filter ?P mid @ y # filter ?P rear"
    using eq by (simp add: out)
  then have "subseq [x, y] (filter ?P out)"
    by (simp add: subseq_pair_append)
  also have "subseq (filter ?P out) (filter ?P scored)"
    using pre by (rule prefix_imp_subseq)
  also have "subseq (filter ?P scored) scored"
    by simp
  finally show ?thesis
    by (rule subseq_pair_split)
qed

text \<open>
  C4. The sort is stable. Let \<open>scored\<close> be the candidates with their scores, in input
  order. For every score \<open>k\<close>, the entries of the output whose score is \<open>k\<close> are, in this
  order, the first entries of \<open>scored\<close> whose score is \<open>k\<close>. Hence whenever an entry \<open>x\<close>
  stands before an entry \<open>y\<close> in the output and both have the same score, \<open>x\<close> stands
  before \<open>y\<close> in \<open>scored\<close>, and the listing of \<open>x\<close> before the listing of \<open>y\<close> in the input.
\<close>

theorem rerank_is_stable:
  "rerank_listings rp listings ui = Inr out \<Longrightarrow>
     \<exists>scored. score_all rp ui listings = Inr scored \<and> map snd scored = listings
       \<and> (\<forall>k. prefix (filter (\<lambda>p. fst p = k) out) (filter (\<lambda>p. fst p = k) scored))
       \<and> (\<forall>front x mid y rear. out = front @ x # mid @ y # rear \<and> fst x = fst y \<longrightarrow>
             (\<exists>front' mid' rear'. scored = front' @ x # mid' @ y # rear'
                \<and> listings = map snd front' @ snd x # map snd mid' @ snd y # map snd rear'))"
proof -
  assume "rerank_listings rp listings ui = Inr out"
  then obtain scored where scored: "score_all rp ui listings = Inr scored"
    and o: "out = take 3 (sorted_desc scored)"
    by (auto simp: rerank_listings_Inr)
  have docs: "map snd scored = listings"
    using scored by (rule score_all_docs)
  have pre: "prefix (filter (\<lambda>p. fst p = k) out) (filter (\<lambda>p. fst p = k) scored)" for k
  proof -
    have "prefix (filter (\<lambda>p. fst p = k) out) (filter (\<lambda>p. fst p = k) (sorted_desc scored))"
      unfolding o by (intro filter_mono_prefix take_is_prefix)
    then show ?thesis by (simp add: filter_sorted_desc)
  qed
  have occ: "\<exists>front' mid' rear'. scored = front' @ x # mid' @ y # rear'
                \<and> listings = map snd front' @ snd x # map snd mid' @ snd y # map snd rear'"
    if "out = front @ x # mid @ y # rear \<and> fst x = fst y" for front x mid y rear
  proof -
    from that obtain front' mid' rear' where "scored = front' @ x # mid' @ y # rear'"
      using occurs_before_preserved [of out scored front x mid y rear] pre by blast
    with docs show ?thesis by auto
  qed
  from scored docs pre occ show ?thesis by blast
qed

lemma score_all_in_set:
  "score_all rp ui ds = Inr scored \<Longrightarrow> (s, d) \<in> set scored \<Longrightarrow> score_listing rp ui d = Inr s"
  using score_all_scores [of rp ui ds scored "(s, d)"] by simp

text \<open>
  C1, as amended. When the preferred city is a non-empty string and a listing's location is
  a non-empty string whose \<^verbatim>\<open>lower()\<close> differs from that of the city (on any text, ASCII
  or not), \<open>score_listing\<close> returns exactly 0 whatever the other fields hold, and that is
  the score \<open>rerank_listings\<close> returns the listing with.
\<close>

theorem other_city_scores_zero:
  "dict_get ui ''city'' = PStr c \<and> c \<noteq> []
   \<and> dict_get (metadata d) ''location'' = PStr l \<and> l \<noteq> [] \<and> str_lower rp l \<noteq> str_lower rp c \<longrightarrow>
     score_listing rp ui d = Inr (Fin 0)
     \<and> (\<forall>listings out s. rerank_listings rp listings ui = Inr out \<and> (s, d) \<in> set out \<longrightarrow> s = Fin 0)"
proof (intro impI conjI allI)
  assume h: "dict_get ui ''city'' = PStr c \<and> c \<noteq> []
   \<and> dict_get (metadata d) ''location'' = PStr l \<and> l \<noteq> [] \<and> str_lower rp l \<noteq> str_lower rp c"
  then show zero: "score_listing rp ui d = Inr (Fin 0)"
    by (intro score_listing_differs [of ui c d l]) simp_all
  fix listings out s
  assume "rerank_listings rp listings ui = Inr out \<and> (s, d) \<in> set out"
  then obtain scored where scored: "score_all rp ui listings = Inr scored"
    and "(s, d) \<in> set (take 3 (sorted_desc scored))"
    by (auto simp: rerank_listings_Inr)
  then have "(s, d) \<in> set scored"
    by (auto dest: in_set_takeD simp: set_sorted_desc)
  from score_all_in_set [OF scored this] zero show "s = Fin 0" by simp
qed

section \<open>The amenities term\<close>

lemma dict_get_other: "k \<noteq> k' \<Longrightarrow> dict_get (md(k' := v)) k = dict_get md k"
  by (simp add: dict_get_def)

lemma city_mismatch_frame: "city_mismatch rp ui (md(''amenities'' := None)) = city_mismatch rp ui md"
  by (simp add: city_mismatch_def dict_get_other)

lemma add_budget_frame: "add_budget rp ui (md(''amenities'' := None)) s = add_budget rp ui md s"
  by (simp add: add_budget_def dict_get_other)

lemma add_square_feet_frame:
  "add_square_feet rp ui (md(''amenities'' := None)) s = add_square_feet rp ui md s"
  by (simp add: add_square_feet_def dict_get_other)

lemma base_score_frame: "base_score rp ui (md(''amenities'' := None)) = base_score rp ui md"
  by (simp add: base_score_def add_budget_frame add_square_feet_frame)

lemma add_count_frame:
  "key \<noteq> ''amenities'' \<Longrightarrow> add_count rp key ui (md(''amenities'' := None)) s = add_count rp key ui md s"
  by (simp add: add_count_def dict_get_other)

lemma add_amenities_removed: "add_amenities rp ui (md(''amenities'' := None)) s = Inr s"
  by (simp add: add_amenities_def)

lemma add_amenities_list:
  assumes "md ''amenities'' = Some (PList theirs)" "dict_get ui ''amenities'' = PList ours" "ours \<noteq> []"
  shows "add_amenities rp ui md s = Inr (f_add s (Fin (of_nat (card (set ours \<inter> set theirs)) * (1 / 2))))"
  using assms by (simp add: add_amenities_def dict_get_def)

lemma add_amenities_raw_string:
  "md ''amenities'' = Some (PStr raw) \<Longrightarrow> add_amenities rp ui md s = Inr s"
  by (simp add: add_amenities_def dict_get_def)

lemma score_without_amenities:
  "score_listing rp ui (without_amenities d) =
     (case city_mismatch rp ui (metadata d) of
        Inl e \<Rightarrow> Inl e
      | Inr b \<Rightarrow>
          if b then Inr (Fin 0)
          else (case add_count rp ''number_of_bedrooms'' ui (metadata d) (base_score rp ui (metadata d)) of
                  Inl e \<Rightarrow> Inl e
                | Inr s4 \<Rightarrow> add_count rp ''number_of_bathrooms'' ui (metadata d) s4))"
proof -
  have md: "metadata (without_amenities d) = (metadata d)(''amenities'' := None)"
    by (simp add: without_amenities_def)
  show ?thesis
    unfolding score_listing_unfold [of rp ui "without_amenities d"] md
    by (simp add: city_mismatch_frame base_score_frame add_count_frame add_amenities_removed
        split: sum.splits)
qed

text \<open>The amenities step is the last one: the score is what it adds to the score without.\<close>

lemma score_with_amenities:
  assumes "city_mismatch rp ui (metadata d) = Inr False"
  shows "score_listing rp ui d =
           (case score_listing rp ui (without_amenities d) of
              Inl e \<Rightarrow> Inl e
            | Inr s \<Rightarrow> add_amenities rp ui (metadata d) s)"
  unfolding score_without_amenities score_listing_unfold [of rp ui d]
  by (simp add: assms split: sum.splits)

lemma score_raw_string_amenities:
  assumes "metadata d ''amenities'' = Some (PStr raw)"
  shows "score_listing rp ui d = score_listing rp ui (without_amenities d)"
  unfolding score_without_amenities score_listing_unfold [of rp ui d]
  using assms by (simp add: add_amenities_raw_string split: sum.splits)

text \<open>
  C5. For a listing that passed the city test and whose amenities are a list, the score is
  the score of the same listing without its amenities plus 0.5 for each member of the
  intersection of the user's amenity set and the listing's; when the listing's amenities
  are a raw string the score is that of the listing without them. With the listing's
  amenities \<^verbatim>\<open>["gym", "pool"]\<close> and the user's \<^verbatim>\<open>["pool", "garden"]\<close> the term is
  exactly 0.5.
\<close>

theorem amenities_add_half_per_match:
  "(city_mismatch rp ui (metadata d) = Inr False
      \<and> metadata d ''amenities'' = Some (PList theirs)
      \<and> dict_get ui ''amenities'' = PList ours \<and> ours \<noteq> [] \<longrightarrow>
      score_listing rp ui d =
        (case score_listing rp ui (without_amenities d) of
           Inl e \<Rightarrow> Inl e
         | Inr s \<Rightarrow> Inr (f_add s (Fin (of_nat (card (set ours \<inter> set theirs)) * (1 / 2))))))
   \<and> (metadata d ''amenities'' = Some (PStr raw) \<longrightarrow>
        score_listing rp ui d = score_listing rp ui (without_amenities d))
   \<and> (city_mismatch rp ui (metadata d) = Inr False
        \<and> metadata d ''amenities'' = Some (PList [''gym'', ''pool''])
        \<and> dict_get ui ''amenities'' = PList [''pool'', ''garden''] \<longrightarrow>
        score_listing rp ui d =
          (case score_listing rp ui (without_amenities d) of
             Inl e \<Rightarrow> Inl e
           | Inr s \<Rightarrow> Inr (f_add s (Fin (1 / 2)))))"
proof (intro conjI impI)
  assume h: "city_mismatch rp ui (metadata d) = Inr False
      \<and> metadata d ''amenities'' = Some (PList theirs)
      \<and> dict_get ui ''amenities'' = PList ours \<and> ours \<noteq> []"
  then have "add_amenities rp ui (metadata d) s =
      Inr (f_add s (Fin (of_nat (card (set ours \<inter> set theirs)) * (1 / 2))))" for s
    by (intro add_amenities_list) simp_all
  with h show "score_listing rp ui d =
        (case score_listing rp ui (without_amenities d) of
           Inl e \<Rightarrow> Inl e
         | Inr s \<Rightarrow> Inr (f_add s (Fin (of_nat (card (set ours \<inter> set theirs)) * (1 / 2)))))"
    by (simp add: score_with_amenities split: sum.splits)
next
  assume "metadata d ''amenities'' = Some (PStr raw)"
  then show "score_listing rp ui d = score_listing rp ui (without_amenities d)"
    by (rule score_raw_string_amenities)
next
  assume h: "city_mismatch rp ui (metadata d) = Inr False
        \<and> metadata d ''amenities'' = Some (PList [''gym'', ''pool''])
        \<and> dict_get ui ''amenities'' = PList [''pool'', ''garden'']"
  have "set [''pool'', ''garden''] \<inter> set [''gym'', ''pool''] = {''pool''}"
    by auto
  then have "card (set [''pool'', ''garden''] \<inter> set [''gym'', ''pool'']) = 1"
    by simp
  with h have "add_amenities rp ui (metadata d) s = Inr (f_add s (Fin (1 / 2)))" for s
    using add_amenities_list [of "metadata d" "[''gym'', ''pool'']" ui "[''pool'', ''garden'']" rp s]
    by simp
  with h show "score_listing rp ui d =
          (case score_listing rp ui (without_amenities d) of
             Inl e \<Rightarrow> Inl e
           | Inr s \<Rightarrow> Inr (f_add s (Fin (1 / 2))))"
    by (simp add: score_with_amenities split: sum.splits)
qed

section \<open>The end-to-end scenario\<close>

lemma scenario_lookups:
  "dict_get scenario_inputs ''city'' = PStr ''Berlin''"
  "dict_get scenario_inputs ''budget'' = PStr ''450000''"
  "dict_get scenario_inputs ''square_feet'' = PStr ''1200''"
  "dict_get scenario_inputs ''features'' = PNone"
  "dict_get scenario_inputs ''amenities'' = PNone"
  by (simp_all add: scenario_inputs_def dict_get_def)

lemma float_of_str_450000: "float_of_str ''450000'' = Inr (Fin 450000)"
  by (simp add: float_of_str_def strip_chars_def is_blank_def ascii_lower_def char_lower_def decimal_def
      split_at_def mantissa_def digits_nat_def is_digit_def)

lemma float_of_str_1200: "float_of_str ''1200'' = Inr (Fin 1200)"
  by (simp add: float_of_str_def strip_chars_def is_blank_def ascii_lower_def char_lower_def decimal_def
      split_at_def mantissa_def digits_nat_def is_digit_def)

lemma lower_Berlin: "str_lower rp ''Berlin'' = ''berlin''"
  by (simp add: str_lower_def ascii_text_def ascii_lower_def char_lower_def)

lemma lower_Munich: "str_lower rp ''Munich'' = ''munich''"
  by (simp add: str_lower_def ascii_text_def ascii_lower_def char_lower_def)

lemma scenario_score_passed:
  assumes cm: "city_mismatch rp scenario_inputs (metadata d) = Inr False"
    and ps: "priced_and_sized rp d price sqft"
  shows "score_listing rp scenario_inputs d =
           Inr (f_add (f_add (Fin 5) (py_max (Fin 0) (Fin (3 - \<bar>450000 - price\<bar> / 450000))))
                      (py_max (Fin 0) (Fin (2 - \<bar>1200 - sqft\<bar> / 1200))))"
proof -
  from ps have b: "add_budget rp scenario_inputs (metadata d) (Fin 5) =
      f_add (Fin 5) (py_max (Fin 0) (Fin (3 - \<bar>450000 - price\<bar> / 450000)))"
    by (simp add: add_budget_def priced_and_sized_def scenario_lookups proximity_def
        float_of_str_450000 ascii_text_def f_sub_def)
  from ps have s: "add_square_feet rp scenario_inputs (metadata d) x =
      f_add x (py_max (Fin 0) (Fin (2 - \<bar>1200 - sqft\<bar> / 1200)))" for x
    by (simp add: add_square_feet_def priced_and_sized_def scenario_lookups proximity_def
        float_of_str_1200 ascii_text_def f_sub_def)
  show ?thesis
    by (simp add: score_listing_unfold cm base_score_def b s add_count_def add_amenities_def
        scenario_lookups)
qed

lemma scenario_score_berlin:
  assumes "located_in d ''Berlin''" "priced_and_sized rp d price sqft"
  shows "score_listing rp scenario_inputs d =
           Inr (f_add (f_add (Fin 5) (py_max (Fin 0) (Fin (3 - \<bar>450000 - price\<bar> / 450000))))
                      (py_max (Fin 0) (Fin (2 - \<bar>1200 - sqft\<bar> / 1200))))"
proof -
  from assms(1) have "city_mismatch rp scenario_inputs (metadata d) = Inr False"
    by (simp add: located_in_def city_mismatch_def scenario_lookups)
  then show ?thesis using assms(2) by (rule scenario_score_passed)
qed

lemma scenario_score_best:
  "located_in d ''Berlin'' \<Longrightarrow> priced_and_sized rp d 440000 1180 \<Longrightarrow>
   score_listing rp scenario_inputs d = Inr (Fin (1793 / 180))"
  by (simp add: scenario_score_berlin py_max_def)

lemma scenario_score_second:
  "located_in d ''Berlin'' \<Longrightarrow> priced_and_sized rp d 600000 2000 \<Longrightarrow>
   score_listing rp scenario_inputs d = Inr (Fin 9)"
  by (simp add: scenario_score_berlin py_max_def)

lemma scenario_score_munich:
  "located_in d ''Munich'' \<Longrightarrow> score_listing rp scenario_inputs d = Inr (Fin 0)"
  by (intro score_listing_differs [of _ "''Berlin''" _ "''Munich''"])
     (simp_all add: scenario_lookups located_in_def lower_Berlin lower_Munich)

lemma scenario_score_all_munich:
  "\<forall>m\<in>set ms. located_in m ''Munich'' \<Longrightarrow>
   score_all rp scenario_inputs ms = Inr (map (Pair (Fin 0)) ms)"
  by (induction ms) (simp_all add: scenario_score_munich)

lemma insort_desc_front:
  "ys = [] \<or> \<not> f_lt (fst x) (fst (hd ys)) \<Longrightarrow> insort_desc x ys = x # ys"
  by (cases ys) auto

lemma insort_desc_skip:
  "\<forall>y\<in>set front. f_lt (fst x) (fst y) \<Longrightarrow> insort_desc x (front @ r) = front @ insort_desc x r"
  by (induction front) auto

text \<open>The entries with the greatest key come first, in input order.\<close>

lemma sorted_desc_greatest_first:
  assumes "\<forall>p\<in>set xs. f_le (fst p) a"
  shows "sorted_desc xs = filter (\<lambda>p. fst p = a) xs @ sorted_desc (filter (\<lambda>p. fst p \<noteq> a) xs)"
  using assms
proof (induction xs)
  case Nil
  then show ?case by (simp add: sorted_desc_def)
next
  case (Cons x xs)
  then have IH: "sorted_desc xs = filter (\<lambda>p. fst p = a) xs @ sorted_desc (filter (\<lambda>p. fst p \<noteq> a) xs)"
    by simp
  have step: "sorted_desc (x # xs) = insort_desc x (sorted_desc xs)"
    by (simp add: sorted_desc_def)
  show ?case
  proof (cases "fst x = a")
    case True
    have "sorted_desc xs = [] \<or> \<not> f_lt (fst x) (fst (hd (sorted_desc xs)))"
    proof (cases "sorted_desc xs")
      case Nil
      then show ?thesis by simp
    next
      case (Cons y ys)
      then have "y \<in> set xs"
        using set_sorted_desc [of xs] by auto
      with Cons.prems have "f_le (fst y) a" by simp
      with True Cons show ?thesis by (simp add: f_le_imp_not_lt)
    qed
    then have "insort_desc x (sorted_desc xs) = x # sorted_desc xs"
      by (rule insort_desc_front)
    with step IH True show ?thesis by simp
  next
    case False
    from Cons.prems have "f_le (fst x) a" by simp
    with False have lt: "f_lt (fst x) a" by (simp add: f_le_neq_imp_lt)
    have "insort_desc x (filter (\<lambda>p. fst p = a) xs @ sorted_desc (filter (\<lambda>p. fst p \<noteq> a) xs))
          = filter (\<lambda>p. fst p = a) xs @ insort_desc x (sorted_desc (filter (\<lambda>p. fst p \<noteq> a) xs))"
      by (rule insort_desc_skip) (simp add: lt)
    with step IH False show ?thesis by (simp add: sorted_desc_def)
  qed
qed

lemma filter_key_pairs:
  "filter (\<lambda>p. fst p = k) (map (Pair z) ms) = (if z = k then map (Pair z) ms else [])"
  by (induction ms) auto

lemma filter_not_key_pairs:
  "filter (\<lambda>p. fst p \<noteq> k) (map (Pair z) ms) = (if z = k then [] else map (Pair z) ms)"
  by (induction ms) auto

lemma sorted_desc_Nil: "sorted_desc [] = []"
  by (simp add: sorted_desc_def)

lemma sorted_desc_constant:
  assumes "z \<noteq> NaN"
  shows "sorted_desc (map (Pair z) ms) = map (Pair z) ms"
proof -
  have "\<forall>p\<in>set (map (Pair z) ms). f_le (fst p) z"
    using assms by (cases z) auto
  from sorted_desc_greatest_first [OF this] show ?thesis
    by (simp add: filter_key_pairs filter_not_key_pairs sorted_desc_Nil)
qed

text \<open>The sorted list of the scenario: best, second, then the zeros in input order.\<close>

lemma scenario_sorted:
  assumes "(p = (Fin (1793 / 180), b1) \<and> q = (Fin 9, b2))
           \<or> (p = (Fin 9, b2) \<and> q = (Fin (1793 / 180), b1))"
  shows "sorted_desc (map (Pair (Fin 0)) ms1 @ p # map (Pair (Fin 0)) ms2 @ q # map (Pair (Fin 0)) ms3)
         = (Fin (1793 / 180), b1) # (Fin 9, b2) # map (Pair (Fin 0)) (ms1 @ ms2 @ ms3)"
proof -
  let ?xs = "map (Pair (Fin 0)) ms1 @ p # map (Pair (Fin 0)) ms2 @ q # map (Pair (Fin 0)) ms3"
  let ?ys = "(Fin 9, b2) # map (Pair (Fin 0)) (ms1 @ ms2 @ ms3)"
  have zeros: "sorted_desc (map (Pair (Fin 0)) (ms1 @ ms2 @ ms3)) = map (Pair (Fin 0)) (ms1 @ ms2 @ ms3)"
    by (rule sorted_desc_constant) simp
  have "\<forall>x\<in>set ?xs. f_le (fst x) (Fin (1793 / 180))"
    using assms by auto
  from sorted_desc_greatest_first [OF this]
  have first: "sorted_desc ?xs = (Fin (1793 / 180), b1)
      # sorted_desc (filter (\<lambda>x. fst x \<noteq> Fin (1793 / 180)) ?xs)"
    using assms by (auto simp: filter_key_pairs filter_not_key_pairs)
  let ?rest = "filter (\<lambda>x. fst x \<noteq> Fin (1793 / 180)) ?xs"
  have "\<forall>x\<in>set ?rest. f_le (fst x) (Fin 9)"
    using assms by auto
  from sorted_desc_greatest_first [OF this]
  have "sorted_desc ?rest = (Fin 9, b2) # sorted_desc (map (Pair (Fin 0)) (ms1 @ ms2 @ ms3))"
    using assms by (auto simp: filter_key_pairs filter_not_key_pairs)
  with first zeros show ?thesis by simp
qed

text \<open>
  C9. With the preference record \<^verbatim>\<open>{budget: "450000", city: "Berlin", square_feet: "1200"}\<close>
  and five candidates in any order, namely a Berlin listing priced 440000 with 1180 square
  feet (\<open>b1\<close>), a Berlin listing priced 600000 with 2000 square feet (\<open>b2\<close>) and three Munich
  listings, \<open>rerank_listings\<close> returns \<open>b1\<close> first with the strictly highest score, \<open>b2\<close>
  second, and one Munich listing, the first of the input, third with score 0.
\<close>

theorem scenario_ranking:
  assumes "located_in b1 ''Berlin''" "priced_and_sized rp b1 440000 1180"
    and "located_in b2 ''Berlin''" "priced_and_sized rp b2 600000 2000"
    and "\<forall>m\<in>set (ms1 @ ms2 @ ms3). located_in m ''Munich''"
    and "length (ms1 @ ms2 @ ms3) = 3"
    and "listings = ms1 @ b1 # ms2 @ b2 # ms3 \<or> listings = ms1 @ b2 # ms2 @ b1 # ms3"
  shows "rerank_listings rp listings scenario_inputs =
           Inr [(Fin (1793 / 180), b1), (Fin 9, b2), (Fin 0, hd (ms1 @ ms2 @ ms3))]
         \<and> f_lt (Fin 9) (Fin (1793 / 180)) \<and> f_lt (Fin 0) (Fin 9)
         \<and> located_in (hd (ms1 @ ms2 @ ms3)) ''Munich''"
proof -
  let ?ms = "ms1 @ ms2 @ ms3"
  have s1: "score_listing rp scenario_inputs b1 = Inr (Fin (1793 / 180))"
    using assms(1,2) by (rule scenario_score_best)
  have s2: "score_listing rp scenario_inputs b2 = Inr (Fin 9)"
    using assms(3,4) by (rule scenario_score_second)
  from assms(5) have z: "score_all rp scenario_inputs ms1 = Inr (map (Pair (Fin 0)) ms1)"
    "score_all rp scenario_inputs ms2 = Inr (map (Pair (Fin 0)) ms2)"
    "score_all rp scenario_inputs ms3 = Inr (map (Pair (Fin 0)) ms3)"
    by (simp_all add: scenario_score_all_munich)
  obtain p q where scored: "score_all rp scenario_inputs listings =
      Inr (map (Pair (Fin 0)) ms1 @ p # map (Pair (Fin 0)) ms2 @ q # map (Pair (Fin 0)) ms3)"
    and pq: "(p = (Fin (1793 / 180), b1) \<and> q = (Fin 9, b2))
             \<or> (p = (Fin 9, b2) \<and> q = (Fin (1793 / 180), b1))"
    using assms(7) by (auto simp: score_all_append z s1 s2)
  have sorted: "sorted_desc (map (Pair (Fin 0)) ms1 @ p # map (Pair (Fin 0)) ms2 @ q # map (Pair (Fin 0)) ms3)
      = (Fin (1793 / 180), b1) # (Fin 9, b2) # map (Pair (Fin 0)) ?ms"
    using pq by (rule scenario_sorted)
  from assms(6) obtain m rest where ms: "?ms = m # rest"
    by (cases ?ms) auto
  with assms(5) have "located_in m ''Munich''"
    by (metis list.set_intros(1))
  with scored sorted ms show ?thesis
    by (simp add: rerank_listings_def)
qed

section \<open>Claims about the numeric normalizer\<close>

lemma ascii_text_filter: "ascii_text s \<Longrightarrow> ascii_text (filter P s)"
  by (induction s) (auto simp: ascii_text_def)

lemma int_of_str_error: "int_of_str s = Inl e \<Longrightarrow> e = ValueError"
  by (auto simp: int_of_str_def split: prod.splits if_splits)

lemma float_of_str_error: "float_of_str s = Inl e \<Longrightarrow> e = ValueError"
  by (auto simp: float_of_str_def Let_def split: prod.splits if_splits option.splits)

lemma py_int_error:
  "py_int rp v = Inl e \<Longrightarrow>
     e = TypeError \<or> e = ValueError \<or> (e = OverflowError \<and> (v = PFloat PosInf \<or> v = PFloat NegInf))"
  by (induction rp v rule: py_int.induct)
     (auto dest: int_of_str_error split: if_splits option.splits)

lemma py_float_text_error: "py_float rp (PStr s) = Inl e \<Longrightarrow> e = ValueError"
  by (auto dest: float_of_str_error split: if_splits option.splits)

text \<open>
  \<open>safe_float\<close> never raises: a failure of the conversion is logged as a warning and the
  default is returned. On ASCII text the conversion is applied to the digits and dots of
  the text.
\<close>

lemma safe_float_never_raises: "\<exists>v. fst (safe_float rp val dflt lg) = Inr v"
  by (simp add: safe_float_def split: sum.splits)

lemma safe_float_failure:
  "py_float rp (PStr (digits_and_dots rp (py_str rp val))) = Inl e \<Longrightarrow>
   safe_float rp val dflt lg = (Inr dflt, lg @ [Warning (CouldNotParseFloat val dflt e)])"
  by (simp add: safe_float_def)

lemma safe_float_success:
  "py_float rp (PStr (digits_and_dots rp (py_str rp val))) = Inr f \<Longrightarrow>
   safe_float rp val dflt lg = (Inr (PFloat f), lg)"
  by (simp add: safe_float_def)

lemma safe_float_strips:
  "ascii_text (py_str rp val) \<Longrightarrow>
   safe_float rp val dflt lg =
     (case float_of_str (filter (\<lambda>c. is_digit c \<or> c = CHR ''.'') (py_str rp val)) of
        Inr f \<Rightarrow> (Inr (PFloat f), lg)
      | Inl e \<Rightarrow> (Inr dflt, lg @ [Warning (CouldNotParseFloat val dflt e)]))"
  by (simp add: safe_float_def digits_and_dots_def ascii_text_filter)

text \<open>
  \<open>safe_int\<close> returns the default, with a warning, on a \<^verbatim>\<open>ValueError\<close> or a
  \<^verbatim>\<open>TypeError\<close>; it raises exactly when the value is an infinite float, and then it logs
  nothing.
\<close>

lemma safe_int_failure:
  "py_int rp val = Inl e \<Longrightarrow> e = ValueError \<or> e = TypeError \<Longrightarrow>
   safe_int rp val dflt lg = (Inr dflt, lg @ [Warning (CouldNotParseInt val dflt)])"
  by (auto simp: safe_int_def)

lemma safe_int_raises_iff:
  "(\<exists>e. fst (safe_int rp val dflt lg) = Inl e) \<longleftrightarrow> val = PFloat PosInf \<or> val = PFloat NegInf"
proof
  assume "\<exists>e. fst (safe_int rp val dflt lg) = Inl e"
  then obtain e where "py_int rp val = Inl e" "e \<noteq> ValueError" "e \<noteq> TypeError"
    by (auto simp: safe_int_def split: sum.splits if_splits)
  with py_int_error [of rp val e] show "val = PFloat PosInf \<or> val = PFloat NegInf"
    by auto
next
  assume "val = PFloat PosInf \<or> val = PFloat NegInf"
  then show "\<exists>e. fst (safe_int rp val dflt lg) = Inl e"
    by (auto simp: safe_int_def)
qed

text \<open>
  C6. The claim fails for \<open>safe_int\<close>: \<^verbatim>\<open>int(float("inf"))\<close> raises \<^verbatim>\<open>OverflowError\<close>, which
  the handler of \<open>safe_int\<close> does not catch, so the exception leaves the function, no
  warning is logged and no default is returned.
\<close>

theorem safe_int_raises_on_infinity:
  "safe_int rp (PFloat PosInf) dflt lg = (Inl OverflowError, lg)"
  by (simp add: safe_int_def)

text \<open>The generators of the examples keep the contract.\<close>

lemma lowest_draw_contract: "randint_contract lowest_draw"
  by (simp add: randint_contract_def lowest_draw_def)

lemma highest_draw_contract: "randint_contract highest_draw"
  by (simp add: randint_contract_def highest_draw_def)

lemma drawing_contract: "randint_contract (drawing n)"
  by (simp add: randint_contract_def drawing_def)

lemma parse_price_success:
  "py_float rp (PStr (digits_and_dots rp (py_str rp val))) = Inr f \<Longrightarrow>
   parse_price rp randint val lg = (Inr (PFloat f), lg)"
  by (simp add: parse_price_def safe_float_success)

text \<open>
  C7. \<open>parse_price\<close> calls \<^verbatim>\<open>random.randint\<close> with the bounds 100000 and 900000 and
  passes the draw to \<open>safe_float\<close> as the default. When the conversion inside
  \<open>safe_float\<close> fails, then with every generator that keeps the contract of
  \<^verbatim>\<open>randint\<close> the result is the integer drawn, it lies between 100000 and 900000, and one
  warning is logged. Every integer of that range is the result with some generator that
  keeps the contract, so the range is exactly the set of the defaults, and two generators
  give different results on the same input: the result is not a function of the input
  alone.
\<close>

theorem parse_price_default_in_range:
  "py_float rp (PStr (digits_and_dots rp (py_str rp val))) = Inl e \<longrightarrow>
     (\<forall>randint. randint_contract randint \<longrightarrow>
        (\<exists>n. n = randint 100000 900000 \<and> 100000 \<le> n \<and> n \<le> 900000
           \<and> parse_price rp randint val lg =
               (Inr (PInt n), lg @ [Warning (CouldNotParseFloat val (PInt n) e)])))
     \<and> (\<forall>n. 100000 \<le> n \<and> n \<le> 900000 \<longrightarrow>
          (\<exists>randint. randint_contract randint
             \<and> parse_price rp randint val lg =
                 (Inr (PInt n), lg @ [Warning (CouldNotParseFloat val (PInt n) e)])))
     \<and> (\<exists>randint1 randint2. randint_contract randint1 \<and> randint_contract randint2
           \<and> fst (parse_price rp randint1 val lg) \<noteq> fst (parse_price rp randint2 val lg))"
proof (intro impI conjI allI)
  fix randint :: "int \<Rightarrow> int \<Rightarrow> int"
  assume e: "py_float rp (PStr (digits_and_dots rp (py_str rp val))) = Inl e"
    and c: "randint_contract randint"
  from c have "100000 \<le> randint 100000 900000 \<and> randint 100000 900000 \<le> 900000"
    by (simp add: randint_contract_def)
  with e show "\<exists>n. n = randint 100000 900000 \<and> 100000 \<le> n \<and> n \<le> 900000
           \<and> parse_price rp randint val lg =
               (Inr (PInt n), lg @ [Warning (CouldNotParseFloat val (PInt n) e)])"
    by (simp add: parse_price_def safe_float_failure)
next
  fix n :: int
  assume e: "py_float rp (PStr (digits_and_dots rp (py_str rp val))) = Inl e"
    and n: "100000 \<le> n \<and> n \<le> 900000"
  from e n have "parse_price rp (drawing n) val lg =
      (Inr (PInt n), lg @ [Warning (CouldNotParseFloat val (PInt n) e)])"
    by (simp add: parse_price_def safe_float_failure drawing_def)
  with drawing_contract [of n]
  show "\<exists>randint. randint_contract randint
             \<and> parse_price rp randint val lg =
                 (Inr (PInt n), lg @ [Warning (CouldNotParseFloat val (PInt n) e)])"
    by blast
next
  assume e: "py_float rp (PStr (digits_and_dots rp (py_str rp val))) = Inl e"
  then have "fst (parse_price rp lowest_draw val lg) \<noteq> fst (parse_price rp highest_draw val lg)"
    by (simp add: parse_price_def safe_float_failure lowest_draw_def highest_draw_def)
  with lowest_draw_contract highest_draw_contract
  show "\<exists>randint1 randint2. randint_contract randint1 \<and> randint_contract randint2
           \<and> fst (parse_price rp randint1 val lg) \<noteq> fst (parse_price rp randint2 val lg)"
    by blast
qed

lemma float_of_str_empty: "float_of_str [] = Inl ValueError"
  by (simp add: float_of_str_def strip_chars_def ascii_lower_def decimal_def split_at_def mantissa_def)

lemma digits_and_dots_na: "digits_and_dots rp ''n/a'' = []"
  by (simp add: digits_and_dots_def ascii_text_def is_digit_def)

lemma unparsable_na:
  "py_float rp (PStr (digits_and_dots rp (py_str rp (PStr ''n/a'')))) = Inl ValueError"
  by (simp add: digits_and_dots_na float_of_str_empty ascii_text_def)

theorem parse_price_default_in_range_witness:
  "parse_price plain_repr lowest_draw (PStr ''n/a'') [] =
     (Inr (PInt 100000), [Warning (CouldNotParseFloat (PStr ''n/a'') (PInt 100000) ValueError)])
   \<and> parse_price plain_repr highest_draw (PStr ''n/a'') [] =
     (Inr (PInt 900000), [Warning (CouldNotParseFloat (PStr ''n/a'') (PInt 900000) ValueError)])
   \<and> (\<exists>randint. randint_contract randint
         \<and> parse_price plain_repr randint (PStr ''n/a'') [] =
             (Inr (PInt 250000), [Warning (CouldNotParseFloat (PStr ''n/a'') (PInt 250000) ValueError)]))"
proof -
  note t = parse_price_default_in_range [of plain_repr "PStr ''n/a''" ValueError "[]"]
  from t unparsable_na [of plain_repr] lowest_draw_contract
  have "\<exists>n. n = lowest_draw 100000 900000
          \<and> parse_price plain_repr lowest_draw (PStr ''n/a'') [] =
              (Inr (PInt n), [] @ [Warning (CouldNotParseFloat (PStr ''n/a'') (PInt n) ValueError)])"
    by blast
  then have low: "parse_price plain_repr lowest_draw (PStr ''n/a'') [] =
     (Inr (PInt 100000), [Warning (CouldNotParseFloat (PStr ''n/a'') (PInt 100000) ValueError)])"
    by (simp add: lowest_draw_def)
  from t unparsable_na [of plain_repr] highest_draw_contract
  have "\<exists>n. n = highest_draw 100000 900000
          \<and> parse_price plain_repr highest_draw (PStr ''n/a'') [] =
              (Inr (PInt n), [] @ [Warning (CouldNotParseFloat (PStr ''n/a'') (PInt n) ValueError)])"
    by blast
  then have high: "parse_price plain_repr highest_draw (PStr ''n/a'') [] =
     (Inr (PInt 900000), [Warning (CouldNotParseFloat (PStr ''n/a'') (PInt 900000) ValueError)])"
    by (simp add: highest_draw_def)
  from t unparsable_na [of plain_repr]
  have "\<forall>n. 100000 \<le> n \<and> n \<le> 900000 \<longrightarrow>
          (\<exists>randint. randint_contract randint
             \<and> parse_price plain_repr randint (PStr ''n/a'') [] =
                 (Inr (PInt n), [] @ [Warning (CouldNotParseFloat (PStr ''n/a'') (PInt n) ValueError)]))"
    by blast
  from this [rule_format, of 250000]
  have "\<exists>randint. randint_contract randint
         \<and> parse_price plain_repr randint (PStr ''n/a'') [] =
             (Inr (PInt 250000), [Warning (CouldNotParseFloat (PStr ''n/a'') (PInt 250000) ValueError)])"
    by simp
  with low high show ?thesis by blast
qed

section \<open>Claims about the preference normalizer\<close>

lemma dict_get_drop_empty:
  "dict_get (drop_empty raw) k = (if present_nonempty (dict_get raw k) then dict_get raw k else PNone)"
  by (auto simp: dict_get_def drop_empty_def present_nonempty_def split: option.splits)

lemma truthy_present_nonempty: "truthy v \<Longrightarrow> present_nonempty v"
  by (cases v) (auto simp: present_nonempty_def)

lemma truthy_form_value: "form_value v \<Longrightarrow> truthy v = present_nonempty v"
  by (cases v) (auto simp: present_nonempty_def)

lemma truthy_drop_empty: "truthy (dict_get (drop_empty raw) k) = truthy (dict_get raw k)"
  by (auto simp: dict_get_drop_empty truthy_present_nonempty)

lemma present_drop_empty:
  "present_nonempty (dict_get (drop_empty raw) k) = present_nonempty (dict_get raw k)"
  by (simp add: dict_get_drop_empty present_nonempty_def)

lemma truthy_dict_get_drop_empty:
  "truthy (dict_get raw k) \<Longrightarrow> dict_get (drop_empty raw) k = dict_get raw k"
  by (simp add: dict_get_drop_empty truthy_present_nonempty)

text \<open>The filter of the form handler drops exactly the entries that are not set.\<close>

lemma drop_empty_keeps:
  "drop_empty raw k = (if present_nonempty (dict_get raw k) then raw k else None)"
  by (auto simp: drop_empty_def dict_get_def present_nonempty_def split: option.splits)

lemma present_dict_get_drop_empty:
  "present_nonempty (dict_get raw k) \<Longrightarrow> dict_get (drop_empty raw) k = dict_get raw k"
  by (simp add: dict_get_drop_empty)

lemma spec_query_drop_empty: "spec_query rp (drop_empty raw) = spec_query rp raw"
  by (simp add: spec_query_def field_order_def present_drop_empty present_dict_get_drop_empty
      cong: if_cong)

text \<open>
  When the amenities and the neighborhoods are sequences, \<open>parse_preferences\<close> returns
  the query of the specification.
\<close>

lemma parse_preferences_sequences:
  assumes "\<And>k. form_value (dict_get d k)"
    and "\<And>s. dict_get d ''amenities'' = PStr s \<Longrightarrow> s = []"
    and "\<And>s. dict_get d ''neighborhoods'' = PStr s \<Longrightarrow> s = []"
  shows "parse_preferences rp d = Inr (spec_query rp d)"
proof -
  have t: "truthy (dict_get d k) = present_nonempty (dict_get d k)" for k
    by (rule truthy_form_value) (rule assms(1))
  have a: "present_nonempty (dict_get d ''amenities'') \<Longrightarrow>
      py_join rp '', '' (dict_get d ''amenities'') = Inr (comma_joined (dict_get d ''amenities''))"
    using assms(1) [of "''amenities''"] assms(2)
    by (cases "dict_get d ''amenities''") (simp_all add: py_join_def comma_joined_def present_nonempty_def)
  have n: "present_nonempty (dict_get d ''neighborhoods'') \<Longrightarrow>
      py_join rp '', '' (dict_get d ''neighborhoods'') = Inr (comma_joined (dict_get d ''neighborhoods''))"
    using assms(1) [of "''neighborhoods''"] assms(3)
    by (cases "dict_get d ''neighborhoods''") (simp_all add: py_join_def comma_joined_def present_nonempty_def)
  show ?thesis
    by (simp add: parse_preferences_def spec_query_def field_order_def spec_sentence_def
        t a n Let_def)
qed

lemma parse_preferences_on_sequences:
  assumes "\<And>k. form_value (dict_get raw k)"
    and "\<And>s. dict_get raw ''amenities'' = PStr s \<Longrightarrow> s = []"
    and "\<And>s. dict_get raw ''neighborhoods'' = PStr s \<Longrightarrow> s = []"
  shows "parse_preferences rp (drop_empty raw) = Inr (spec_query rp raw)"
proof -
  have "parse_preferences rp (drop_empty raw) = Inr (spec_query rp (drop_empty raw))"
  proof (rule parse_preferences_sequences)
    fix k show "form_value (dict_get (drop_empty raw) k)"
      using assms(1) [of k] by (simp add: dict_get_drop_empty)
  next
    fix s assume "dict_get (drop_empty raw) ''amenities'' = PStr s"
    then show "s = []"
      using assms(2) by (auto simp: dict_get_drop_empty split: if_splits)
  next
    fix s assume "dict_get (drop_empty raw) ''neighborhoods'' = PStr s"
    then show "s = []"
      using assms(3) by (auto simp: dict_get_drop_empty split: if_splits)
  qed
  then show ?thesis by (simp add: spec_query_drop_empty)
qed

lemma sequence_example:
  "parse_preferences rp (drop_empty example_raw_inputs) =
     Inr (''I want a house of around 1200 sq ft.'' @ [CHR 0x0A]
          @ ''My preferred city is Berlin.'' @ [CHR 0x0A]
          @ ''I want amenities like: pool, gym.'')"
  by (simp add: parse_preferences_def example_raw_inputs_def drop_empty_def dict_get_def
      py_join_def Let_def)

text \<open>
  C8. The claim fails on what the search form sends. The form gives the amenities as the
  text the user typed, and \<open>parse_preferences\<close> hands that text to \<^verbatim>\<open>', '.join\<close>, which
  takes it apart into its characters: for the amenities \<^verbatim>\<open>pool, gym\<close> the sentence is
  \<^verbatim>\<open>I want amenities like: p, o, o, l, ,,  , g, y, m.\<close> and not the comma-joined
  amenities of the specification. The empty texts of the form give no sentence, and the
  other sentences are as specified.
\<close>

theorem form_amenities_are_joined_by_character:
  "parse_preferences rp (drop_empty form_inputs) =
     Inr (''I want a house of around 1200 sq ft.'' @ [CHR 0x0A]
          @ ''My preferred city is Berlin.'' @ [CHR 0x0A]
          @ ''I want amenities like: p, o, o, l, ,,  , g, y, m.'')
   \<and> spec_query rp form_inputs =
       ''I want a house of around 1200 sq ft.'' @ [CHR 0x0A]
       @ ''My preferred city is Berlin.'' @ [CHR 0x0A]
       @ ''I want amenities like: pool, gym.''
   \<and> parse_preferences rp (drop_empty form_inputs) \<noteq> Inr (spec_query rp form_inputs)"
proof -
  have code: "parse_preferences rp (drop_empty form_inputs) =
     Inr (''I want a house of around 1200 sq ft.'' @ [CHR 0x0A]
          @ ''My preferred city is Berlin.'' @ [CHR 0x0A]
          @ ''I want amenities like: p, o, o, l, ,,  , g, y, m.'')"
    by (simp add: parse_preferences_def form_inputs_def drop_empty_def dict_get_def
        py_join_def chars_of_def ascii_text_def Let_def)
  have spec: "spec_query rp form_inputs =
       ''I want a house of around 1200 sq ft.'' @ [CHR 0x0A]
       @ ''My preferred city is Berlin.'' @ [CHR 0x0A]
       @ ''I want amenities like: pool, gym.''"
    by (simp add: spec_query_def field_order_def spec_sentence_def comma_joined_def
        present_nonempty_def form_inputs_def dict_get_def)
  from code spec show ?thesis by simp
qed

section \<open>Claims about the augmentation service\<close>

text \<open>
  What the function returns when the model call fails: the amenity lines, with the
  description put between each two of them. A failure of the model call is never
  propagated; the exceptions that leave the function are those of \<^verbatim>\<open>int(price)\<close> and of
  the iteration over the amenities.
\<close>

lemma augment_fallback:
  assumes "py_int rp (dict_get listing ''price'') = Inr price"
    and "amenity_lines rp (dict_get listing ''amenities'') = Inr bullets"
    and "llm (prompt_header @ str_join (description_literals rp listing preferences price) bullets) = Inl e"
  shows "augment_listing_with_preferences rp listing preferences llm lg =
           (Inr (str_join (description_literals rp listing preferences price) bullets),
            lg @ [Warning (LLMCallFailed e)])"
  using assms by (simp add: augment_listing_with_preferences_def)

lemma augment_returns:
  assumes "py_int rp (dict_get listing ''price'') = Inr price"
    and "iterable (dict_get listing ''amenities'')"
  shows "\<exists>text. fst (augment_listing_with_preferences rp listing preferences llm lg) = Inr text"
proof -
  from assms(2) obtain bullets where "amenity_lines rp (dict_get listing ''amenities'') = Inr bullets"
    by (cases "dict_get listing ''amenities''") (auto simp: amenity_lines_def)
  with assms(1) show ?thesis
    by (simp add: augment_listing_with_preferences_def Let_def split: sum.splits)
qed

lemma augment_fallback_single_amenity:
  assumes "py_int rp (dict_get listing ''price'') = Inr price"
    and "dict_get listing ''amenities'' = PList [amenity]"
    and "\<forall>prompt. llm prompt = Inl e"
  shows "augment_listing_with_preferences rp listing preferences llm lg =
           (Inr (''- '' @ amenity @ [CHR 0x0A]), lg @ [Warning (LLMCallFailed e)])"
  using assms by (simp add: augment_listing_with_preferences_def amenity_lines_def)

lemma augment_fallback_no_amenity:
  assumes "py_int rp (dict_get listing ''price'') = Inr price"
    and "dict_get listing ''amenities'' = PList []"
    and "\<forall>prompt. llm prompt = Inl e"
  shows "augment_listing_with_preferences rp listing preferences llm lg =
           (Inr [], lg @ [Warning (LLMCallFailed e)])"
  using assms by (simp add: augment_listing_with_preferences_def amenity_lines_def)

lemma augment_fallback_two_or_more:
  assumes "py_int rp (dict_get listing ''price'') = Inr price"
    and "dict_get listing ''amenities'' = PList (a # b # others)"
    and "\<forall>prompt. llm prompt = Inl e"
  shows "\<exists>text. augment_listing_with_preferences rp listing preferences llm lg =
                  (Inr text, lg @ [Warning (LLMCallFailed e)])
          \<and> sublist (description_literals rp listing preferences price) text"
proof -
  let ?d = "description_literals rp listing preferences price"
  let ?line = "\<lambda>amenity. ''- '' @ amenity @ [CHR 0x0A]"
  have "augment_listing_with_preferences rp listing preferences llm lg =
          (Inr (?line a @ ?d @ str_join ?d (map ?line (b # others))), lg @ [Warning (LLMCallFailed e)])"
    using assms by (simp add: augment_listing_with_preferences_def amenity_lines_def)
  moreover have "sublist ?d (?line a @ ?d @ str_join ?d (map ?line (b # others)))"
    by (rule sublist_appendI)
  ultimately show ?thesis by blast
qed

lemma example_listing_lookups:
  "dict_get (metadata (listing_of title city price sqft)) ''location'' = PStr city"
  "dict_get (metadata (listing_of title city price sqft)) ''price'' = PInt price"
  "dict_get (metadata (listing_of title city price sqft)) ''square_feet'' = PInt sqft"
  "metadata (listing_of title city price sqft) ''amenities'' = Some (PList [''gym'', ''pool''])"
  "metadata (listing_of title city price sqft) ''number_of_bedrooms'' = Some (PInt 3)"
  "metadata (listing_of title city price sqft) ''number_of_bathrooms'' = Some (PInt 2)"
  by (simp_all add: listing_of_def dict_get_def)

text \<open>
  C2. The claim fails on the code. For the Berlin listing priced 440000 with three
  bedrooms and the single amenity \<^verbatim>\<open>"Balcony"\<close>, a failing model call makes the function
  return the text \<^verbatim>\<open>"- Balcony\n"\<close>, which holds neither the price nor the location nor
  the bedroom count; for the same listing with no amenity it returns the empty string.
  The warning is logged and nothing is raised.
\<close>

theorem fallback_description_is_lost:
  "augment_listing_with_preferences plain_repr one_amenity_listing ''My preferred city is Berlin.''
       failing_llm []
     = (Inr (''- Balcony'' @ [CHR 0x0A]), [Warning (LLMCallFailed (ServiceError ''timeout''))])
   \<and> augment_listing_with_preferences plain_repr no_amenity_listing ''My preferred city is Berlin.''
       failing_llm []
     = (Inr [], [Warning (LLMCallFailed (ServiceError ''timeout''))])"
proof -
  have p: "py_int plain_repr (dict_get one_amenity_listing ''price'') = Inr 440000"
    "py_int plain_repr (dict_get no_amenity_listing ''price'') = Inr 440000"
    by (simp_all add: one_amenity_listing_def no_amenity_listing_def berlin_best_def listing_of_def
        dict_get_def)
  have a: "dict_get one_amenity_listing ''amenities'' = PList [''Balcony'']"
    "dict_get no_amenity_listing ''amenities'' = PList []"
    by (simp_all add: one_amenity_listing_def no_amenity_listing_def dict_get_def)
  have f: "\<forall>prompt. failing_llm prompt = Inl (ServiceError ''timeout'')"
    by (simp add: failing_llm_def)
  from augment_fallback_single_amenity [OF p(1) a(1) f] augment_fallback_no_amenity [OF p(2) a(2) f]
  show ?thesis by simp
qed

section \<open>The claims at concrete inputs\<close>

lemma example_located: "located_in (listing_of title city price sqft) city"
  by (simp add: located_in_def example_listing_lookups)

lemma example_priced_and_sized:
  "price \<noteq> 0 \<Longrightarrow> sqft \<noteq> 0 \<Longrightarrow>
   priced_and_sized rp (listing_of title city price sqft) (of_int price) (of_int sqft)"
  by (simp add: priced_and_sized_def example_listing_lookups)

lemma unlocated_has_no_location: "dict_get (metadata unlocated) ''location'' = PNone"
  by (simp add: unlocated_def dict_get_def)

lemma example_well_typed:
  "well_typed_inputs scenario_inputs" "well_typed_listing (listing_of title city price sqft)"
  "well_typed_listing unlocated"
  by (simp_all add: well_typed_inputs_def well_typed_listing_def scenario_lookups
      example_listing_lookups unlocated_has_no_location)

theorem other_city_scores_zero_witness:
  "score_listing plain_repr scenario_inputs munich_1 = Inr (Fin 0)
   \<and> priced_and_sized plain_repr munich_1 440000 1180"
proof -
  have "dict_get scenario_inputs ''city'' = PStr ''Berlin'' \<and> ''Berlin'' \<noteq> []
      \<and> dict_get (metadata munich_1) ''location'' = PStr ''Munich'' \<and> ''Munich'' \<noteq> []
      \<and> str_lower plain_repr ''Munich'' \<noteq> str_lower plain_repr ''Berlin''"
    by (simp add: scenario_lookups munich_1_def example_listing_lookups lower_Berlin lower_Munich)
  with other_city_scores_zero [of scenario_inputs "''Berlin''" munich_1 "''Munich''" plain_repr]
  have "score_listing plain_repr scenario_inputs munich_1 = Inr (Fin 0)"
    by blast
  moreover have "priced_and_sized plain_repr munich_1 440000 1180"
    using example_priced_and_sized [of 440000 1180 plain_repr "''Villa''" "''Munich''"]
    by (simp add: munich_1_def)
  ultimately show ?thesis by simp
qed

text \<open>
  The claim C1 as it is stated fails: a listing whose location is the empty string differs
  from the preferred city \<^verbatim>\<open>"Berlin"\<close>, also after lower-casing; the city test is skipped
  for it, and with the price and size of the scenario's best listing it scores 1793/180
  (about 9.96), not 0.
\<close>

theorem empty_location_is_not_zeroed:
  "dict_get scenario_inputs ''city'' = PStr ''Berlin''
   \<and> dict_get (metadata blank_location) ''location'' = PStr []
   \<and> str_lower plain_repr [] \<noteq> str_lower plain_repr ''Berlin''
   \<and> score_listing plain_repr scenario_inputs blank_location = Inr (Fin (1793 / 180))"
proof -
  have loc: "dict_get (metadata blank_location) ''location'' = PStr []"
    by (simp add: blank_location_def example_listing_lookups)
  then have cm: "city_mismatch plain_repr scenario_inputs (metadata blank_location) = Inr False"
    by (simp add: city_mismatch_no_location)
  have ps: "priced_and_sized plain_repr blank_location 440000 1180"
    using example_priced_and_sized [of 440000 1180 plain_repr "''Barn''" "[]"]
    by (simp add: blank_location_def)
  from scenario_score_passed [OF cm ps] loc show ?thesis
    by (simp add: scenario_lookups lower_Berlin str_lower_def ascii_text_def ascii_lower_def py_max_def)
qed

lemma example_scores:
  "score_listing rp scenario_inputs berlin_best = Inr (Fin (1793 / 180))"
  "score_listing rp scenario_inputs berlin_second = Inr (Fin 9)"
  "score_listing rp scenario_inputs munich_1 = Inr (Fin 0)"
  "score_listing rp scenario_inputs munich_2 = Inr (Fin 0)"
  "score_listing rp scenario_inputs munich_3 = Inr (Fin 0)"
proof -
  show "score_listing rp scenario_inputs berlin_best = Inr (Fin (1793 / 180))"
    unfolding berlin_best_def
    using example_priced_and_sized [of 440000 1180 rp "''Loft''" "''Berlin''"]
    by (intro scenario_score_best example_located) simp
  show "score_listing rp scenario_inputs berlin_second = Inr (Fin 9)"
    unfolding berlin_second_def
    using example_priced_and_sized [of 600000 2000 rp "''Penthouse''" "''Berlin''"]
    by (intro scenario_score_second example_located) simp
  show "score_listing rp scenario_inputs munich_1 = Inr (Fin 0)"
    "score_listing rp scenario_inputs munich_2 = Inr (Fin 0)"
    "score_listing rp scenario_inputs munich_3 = Inr (Fin 0)"
    unfolding munich_1_def munich_2_def munich_3_def
    by (intro scenario_score_munich example_located)+
qed

theorem rerank_returns_top_three_descending_witness:
  "\<exists>out. rerank_listings plain_repr scenario_listings scenario_inputs = Inr out
      \<and> length out = 3 \<and> descending (map fst out)"
proof -
  have wt: "well_typed_inputs scenario_inputs \<and> (\<forall>d\<in>set scenario_listings. well_typed_listing d)"
    by (simp add: scenario_listings_def example_well_typed munich_1_def munich_2_def munich_3_def
        berlin_best_def berlin_second_def)
  with rerank_returns_top_three_descending [of scenario_inputs scenario_listings plain_repr]
  obtain out where out: "rerank_listings plain_repr scenario_listings scenario_inputs = Inr out"
    by blast
  with rerank_returns_top_three_descending [of scenario_inputs scenario_listings plain_repr]
  have "length out = min 3 (length scenario_listings) \<and> descending (map fst out)"
    by blast
  with out show ?thesis
    by (simp add: scenario_listings_def)
qed

text \<open>Two Munich listings tie at 0 and keep their order behind the Berlin listing.\<close>

lemma tie_example:
  "rerank_listings plain_repr [munich_1, munich_2, berlin_best] scenario_inputs
     = Inr [(Fin (1793 / 180), berlin_best), (Fin 0, munich_1), (Fin 0, munich_2)]"
  by (simp add: rerank_listings_def example_scores sorted_desc_def)

theorem rerank_is_stable_witness:
  "\<exists>scored front' mid' rear'.
      score_all plain_repr scenario_inputs [munich_1, munich_2, berlin_best] = Inr scored
      \<and> scored = front' @ (Fin 0, munich_1) # mid' @ (Fin 0, munich_2) # rear'
      \<and> [munich_1, munich_2, berlin_best]
            = map snd front' @ munich_1 # map snd mid' @ munich_2 # map snd rear'"
proof -
  from rerank_is_stable [OF tie_example] obtain scored where
    scored: "score_all plain_repr scenario_inputs [munich_1, munich_2, berlin_best] = Inr scored"
    and occ: "\<forall>front x mid y rear.
       [(Fin (1793 / 180), berlin_best), (Fin 0, munich_1), (Fin 0, munich_2)]
         = front @ x # mid @ y # rear \<and> fst x = fst y \<longrightarrow>
       (\<exists>front' mid' rear'. scored = front' @ x # mid' @ y # rear'
          \<and> [munich_1, munich_2, berlin_best]
               = map snd front' @ snd x # map snd mid' @ snd y # map snd rear')"
    by blast
  have "[(Fin (1793 / 180), berlin_best), (Fin 0, munich_1), (Fin 0, munich_2)]
          = [(Fin (1793 / 180), berlin_best)] @ (Fin 0, munich_1) # [] @ (Fin 0, munich_2) # []
        \<and> fst (Fin 0, munich_1) = fst (Fin 0, munich_2)"
    by simp
  with occ obtain front' mid' rear' where
    "scored = front' @ (Fin 0, munich_1) # mid' @ (Fin 0, munich_2) # rear'
     \<and> [munich_1, munich_2, berlin_best]
          = map snd front' @ snd (Fin 0, munich_1) # map snd mid' @ snd (Fin 0, munich_2) # map snd rear'"
    by blast
  with scored show ?thesis by auto
qed

theorem amenities_add_half_per_match_witness:
  "score_listing plain_repr amenity_inputs berlin_best = Inr (Fin (11 / 2))
   \<and> score_listing plain_repr amenity_inputs (without_amenities berlin_best) = Inr (Fin 5)"
proof -
  have ui: "dict_get amenity_inputs ''amenities'' = PList [''pool'', ''garden'']"
    "dict_get amenity_inputs ''city'' = PNone" "dict_get amenity_inputs ''budget'' = PNone"
    "dict_get amenity_inputs ''square_feet'' = PNone" "dict_get amenity_inputs ''features'' = PNone"
    by (simp_all add: amenity_inputs_def dict_get_def)
  have cm: "city_mismatch plain_repr amenity_inputs (metadata berlin_best) = Inr False"
    by (simp add: city_mismatch_def ui)
  have without: "score_listing plain_repr amenity_inputs (without_amenities berlin_best) = Inr (Fin 5)"
    by (simp add: score_without_amenities cm base_score_def add_budget_def add_square_feet_def
        add_count_def ui)
  have "metadata berlin_best ''amenities'' = Some (PList [''gym'', ''pool''])"
    by (simp add: berlin_best_def example_listing_lookups)
  with amenities_add_half_per_match [of plain_repr amenity_inputs berlin_best] cm ui(1)
  have "score_listing plain_repr amenity_inputs berlin_best =
          (case score_listing plain_repr amenity_inputs (without_amenities berlin_best) of
             Inl e \<Rightarrow> Inl e
           | Inr s \<Rightarrow> Inr (f_add s (Fin (1 / 2))))"
    by blast
  with without show ?thesis by simp
qed

theorem scenario_ranking_witness:
  "rerank_listings plain_repr scenario_listings scenario_inputs
     = Inr [(Fin (1793 / 180), berlin_best), (Fin 9, berlin_second), (Fin 0, munich_1)]"
proof -
  have b1: "located_in berlin_best ''Berlin''" "priced_and_sized plain_repr berlin_best 440000 1180"
    using example_priced_and_sized [of 440000 1180 plain_repr "''Loft''" "''Berlin''"]
    by (simp_all add: berlin_best_def example_located)
  have b2: "located_in berlin_second ''Berlin''" "priced_and_sized plain_repr berlin_second 600000 2000"
    using example_priced_and_sized [of 600000 2000 plain_repr "''Penthouse''" "''Berlin''"]
    by (simp_all add: berlin_second_def example_located)
  have m: "\<forall>m\<in>set ([munich_1] @ [munich_2] @ [munich_3]). located_in m ''Munich''"
    by (simp add: munich_1_def munich_2_def munich_3_def example_located)
  have n: "length ([munich_1] @ [munich_2] @ [munich_3]) = 3"
    by simp
  have o: "scenario_listings = [munich_1] @ berlin_best # [munich_2] @ berlin_second # [munich_3]
           \<or> scenario_listings = [munich_1] @ berlin_second # [munich_2] @ berlin_best # [munich_3]"
    by (simp add: scenario_listings_def)
  from scenario_ranking [OF b1 b2 m n o] show ?thesis
    by simp
qed

theorem scores_zero_or_at_least_five_witness:
  "\<exists>s. rerank_listings plain_repr [munich_1, unlocated] scenario_inputs
          = Inr [(s, unlocated), (Fin 0, munich_1)] \<and> f_le (Fin 5) s"
proof -
  have "well_typed_inputs scenario_inputs \<and> \<not> truthy (dict_get (metadata unlocated) ''location'')
        \<and> dict_get scenario_inputs ''city'' = PStr ''Berlin'' \<and> ''Berlin'' \<noteq> []
        \<and> dict_get (metadata munich_1) ''location'' = PStr ''Munich'' \<and> ''Munich'' \<noteq> []
        \<and> str_lower plain_repr ''Munich'' \<noteq> str_lower plain_repr ''Berlin''"
    by (simp add: example_well_typed scenario_lookups munich_1_def example_listing_lookups
        lower_Berlin lower_Munich unlocated_has_no_location)
  with scores_zero_or_at_least_five
         [of plain_repr "[]" scenario_inputs unlocated "''Berlin''" munich_1 "''Munich''"]
  show ?thesis by blast
qed

end
